theory Spec2Isabelle
  imports Complex_Main "HOL-Library.AList" "HOL-Library.Word"
begin

section \<open>Data model\<close>

text \<open>
  The automation orchestrator of \<^verbatim>\<open>keepers/automation_orchestrator.py\<close> and its two
  provider managers (\<^verbatim>\<open>keepers/chainlink/keeper_manager.py\<close>,
  \<^verbatim>\<open>keepers/gelato/gelato_manager.py\<close>).

  Conventions of the embedding:
  \<^item> A naive \<^verbatim>\<open>datetime\<close> is a point on a linear time axis, an \<open>int\<close> (microseconds).
    A \<^verbatim>\<open>datetime\<close> object is always truthy, so \<^verbatim>\<open>not x\<close> on an optional datetime
    is \<open>x = None\<close>.
  \<^item> A Python \<^verbatim>\<open>dict\<close> is an association list in insertion order: assignment is
    \<open>AList.update\<close> (an existing key keeps its place, a new key goes to the end), lookup is
    \<open>map_of\<close>, \<^verbatim>\<open>del\<close> is \<open>AList.delete\<close>.
  \<^item> Python's unbounded \<^verbatim>\<open>int\<close> is \<open>int\<close>. True division \<^verbatim>\<open>/\<close> and the
    \<^verbatim>\<open>float\<close> values it produces are exact rationals (\<open>rat\<close>).
  \<^item> Every exception is a value of \<open>error\<close>; a method that mutates \<^verbatim>\<open>self\<close> returns its
    outcome together with the new state, also when it raises.
  \<^item> The objects handed to a method (\<^verbatim>\<open>job\<close>, \<^verbatim>\<open>task\<close>) are values; the caller does
    not mutate them behind the orchestrator's back.
\<close>

type_synonym datetime = int
type_synonym bytes = "8 word list"

datatype error =
    NoProvidersAvailable            \<comment> \<open>\<^verbatim>\<open>ValueError("No automation providers available")\<close>\<close>
  | JobNotFound string              \<comment> \<open>\<^verbatim>\<open>ValueError(f"Job {job_name} not found")\<close>\<close>
  | ChainlinkNotInitialized         \<comment> \<open>\<^verbatim>\<open>ValueError("Chainlink Keepers not initialized")\<close>\<close>
  | GelatoNotInitialized            \<comment> \<open>\<^verbatim>\<open>ValueError("Gelato Network not initialized")\<close>\<close>
  | InsufficientLink int int        \<comment> \<open>\<^verbatim>\<open>ValueError("Insufficient LINK balance. Need n, have b")\<close>\<close>
  | TaskNotFound string             \<comment> \<open>\<^verbatim>\<open>ValueError(f"Task {task_name} not found")\<close>\<close>
  | TaskHasNoId string              \<comment> \<open>\<^verbatim>\<open>ValueError(f"Task {task_name} has no task ID")\<close>\<close>
  | InvalidIsoFormat                \<comment> \<open>\<^verbatim>\<open>ValueError\<close> of \<^verbatim>\<open>datetime.fromisoformat\<close>\<close>
  | AttributeError                  \<comment> \<open>a method called on \<^verbatim>\<open>None\<close>\<close>
  | KeyError                        \<comment> \<open>a subscript on a missing dictionary key\<close>
  | ZeroDivisionError
  | RpcError                        \<comment> \<open>any exception raised by the web3 client\<close>

datatype AutomationProvider = CHAINLINK | GELATO | AUTO

record AutomationJob =
  name :: string
  target_contract :: string
  function_name :: string
  check_data :: bytes
  gas_limit :: int
  frequency :: int
  max_fee :: int
  priority :: int
  provider :: AutomationProvider
  active :: bool
  created_at :: "datetime option"
  last_execution :: "datetime option"

record ExecutionMetrics =
  total_executions :: int
  successful_executions :: int
  failed_executions :: int
  total_gas_used :: int
  total_fees_paid :: int
  average_execution_time :: rat
  last_execution_time :: "datetime option"

text \<open>\<^verbatim>\<open>ExecutionMetrics()\<close>: the dataclass defaults.\<close>

definition new_metrics :: ExecutionMetrics where
  "new_metrics =
     \<lparr>total_executions = 0, successful_executions = 0, failed_executions = 0,
      total_gas_used = 0, total_fees_paid = 0, average_execution_time = 0,
      last_execution_time = None\<rparr>"

text \<open>\<^verbatim>\<open>KeeperJob\<close> of the keeper manager; its fields carry the prefix \<open>k_\<close>.\<close>

record KeeperJob =
  k_name :: string
  k_contract_address :: string
  k_function_name :: string
  k_check_data :: bytes
  k_gas_limit :: int
  k_trigger_condition :: string
  k_frequency :: int
  k_last_execution :: "datetime option"
  k_active :: bool

text \<open>\<^verbatim>\<open>GelatoTask\<close> of the relay manager; its fields carry the prefix \<open>t_\<close>.\<close>

record GelatoTask =
  t_name :: string
  t_target_contract :: string
  t_function_selector :: string
  t_resolver_contract :: string
  t_resolver_data :: bytes
  t_interval :: int
  t_max_fee :: int
  t_active :: bool
  t_task_id :: "string option"
  t_created_at :: "datetime option"
  t_last_execution :: "datetime option"

record TaskExecution =
  task_id :: "string option"
  execution_time :: datetime
  gas_used :: int
  fee_paid :: int
  success :: bool
  error_message :: "string option"

text \<open>
  The managers' own state: \<^verbatim>\<open>ChainlinkKeeperManager.jobs\<close>, and
  \<^verbatim>\<open>GelatoManager.tasks\<close> with \<^verbatim>\<open>GelatoManager.executions\<close>. (The keeper manager's
  \<^verbatim>\<open>upkeeps\<close> dictionary is never read or written and is left out.)
\<close>

record ChainlinkKeeperManager =
  keeper_jobs :: "(string \<times> KeeperJob) list"

record GelatoManager =
  tasks :: "(string \<times> GelatoTask) list"
  executions :: "TaskExecution list"

record AutomationOrchestrator =
  chainlink_manager :: "ChainlinkKeeperManager option"
  gelato_manager :: "GelatoManager option"
  jobs :: "(string \<times> AutomationJob) list"
  job_assignments :: "(string \<times> AutomationProvider) list"
  metrics :: "(string \<times> ExecutionMetrics) list"

text \<open>
  \<^verbatim>\<open>self.provider_costs\<close> is set in \<^verbatim>\<open>__init__\<close> and never assigned again, so it is a
  constant of the model.
\<close>

definition provider_costs :: "(AutomationProvider \<times> int) list" where
  "provider_costs = [(CHAINLINK, 20), (GELATO, 25)]"

text \<open>
  \<^verbatim>\<open>__init__\<close> with \<^verbatim>\<open>_initialize_providers\<close>: each manager is present when its section of
  the configuration is enabled and its constructor did not raise (the constructor's
  exception is caught and logged); a fresh manager holds no job and no task.
\<close>

definition new_orchestrator :: "bool \<Rightarrow> bool \<Rightarrow> AutomationOrchestrator" where
  "new_orchestrator chainlink_ok gelato_ok =
     \<lparr>chainlink_manager = (if chainlink_ok then Some \<lparr>keeper_jobs = []\<rparr> else None),
      gelato_manager = (if gelato_ok then Some \<lparr>tasks = [], executions = []\<rparr> else None),
      jobs = [], job_assignments = [], metrics = []\<rparr>"

section \<open>Provider selection\<close>

text \<open>\<^verbatim>\<open>d[k]\<close>: a subscript raises \<^verbatim>\<open>KeyError\<close> on a missing key.\<close>

definition dict_get :: "('k \<times> 'v) list \<Rightarrow> 'k \<Rightarrow> error + 'v" where
  "dict_get d k = (case map_of d k of None \<Rightarrow> Inl KeyError | Some v \<Rightarrow> Inr v)"

text \<open>
  The two scoring blocks of \<^verbatim>\<open>_select_best_provider\<close>, each starting from score 0 and
  adding the cost, reliability and feature factors in the source's order.
\<close>

definition score_chainlink :: "AutomationJob \<Rightarrow> error + rat" where
  "score_chainlink job =
     (case dict_get provider_costs CHAINLINK of
        Inl e \<Rightarrow> Inl e
      | Inr c \<Rightarrow>
          (let chainlink_cost = c * gas_limit job;
               score1 = 0 + max 0 (100 - of_int chainlink_cost / 1000);
               score2 = score1 + 90;
               score3 = (if frequency job \<ge> 3600 then score2 + 20 else score2)
           in Inr score3))"

definition score_gelato :: "AutomationJob \<Rightarrow> error + rat" where
  "score_gelato job =
     (case dict_get provider_costs GELATO of
        Inl e \<Rightarrow> Inl e
      | Inr c \<Rightarrow>
          (let gelato_cost = c * gas_limit job;
               score1 = 0 + max 0 (100 - of_int gelato_cost / 1000);
               score2 = score1 + 85;
               score3 = (if frequency job < 3600 then score2 + 25 else score2);
               score4 = (if priority job \<ge> 2 then score3 + 15 else score3)
           in Inr score4))"

text \<open>
  \<^verbatim>\<open>max(scores.keys(), key=lambda k: scores[k])\<close>: Python's \<^verbatim>\<open>max\<close> walks the keys in
  insertion order and replaces the current best only by a strictly larger one, so the
  first of several maximal keys wins.
\<close>

fun max_by_score :: "('k \<times> rat) \<Rightarrow> ('k \<times> rat) list \<Rightarrow> 'k \<times> rat" where
  "max_by_score best [] = best"
| "max_by_score best (x # xs) = max_by_score (if snd x > snd best then x else best) xs"

definition select_best_provider ::
  "AutomationOrchestrator \<Rightarrow> AutomationJob \<Rightarrow> error + AutomationProvider" where
  "select_best_provider s job =
     (case (case chainlink_manager s of
              None \<Rightarrow> Inr []
            | Some _ \<Rightarrow>
                (case score_chainlink job of
                   Inl e \<Rightarrow> Inl e
                 | Inr sc \<Rightarrow> Inr (AList.update CHAINLINK sc []))) of
        Inl e \<Rightarrow> Inl e
      | Inr scores1 \<Rightarrow>
          (case (case gelato_manager s of
                   None \<Rightarrow> Inr scores1
                 | Some _ \<Rightarrow>
                     (case score_gelato job of
                        Inl e \<Rightarrow> Inl e
                      | Inr sc \<Rightarrow> Inr (AList.update GELATO sc scores1))) of
             Inl e \<Rightarrow> Inl e
           | Inr scores \<Rightarrow>
               (case scores of
                  [] \<Rightarrow> Inl NoProvidersAvailable
                | x # xs \<Rightarrow> Inr (fst (max_by_score x xs)))))"

section \<open>Adding a job\<close>

text \<open>
  \<^verbatim>\<open>add_job\<close>: the metrics entry is (re)initialised first, so it is reset even when the
  selection then raises; the job is stored with its resolved provider.
\<close>

definition add_job ::
  "AutomationJob \<Rightarrow> AutomationOrchestrator \<Rightarrow> (error + unit) \<times> AutomationOrchestrator" where
  "add_job job s =
     (let s1 = s\<lparr>metrics := AList.update (name job) new_metrics (metrics s)\<rparr> in
      case (if provider job = AUTO then select_best_provider s1 job
            else Inr (provider job)) of
        Inl e \<Rightarrow> (Inl e, s1)
      | Inr p \<Rightarrow>
          (let job' = job\<lparr>provider := p\<rparr> in
           (Inr (),
            s1\<lparr>jobs := AList.update (name job) job' (jobs s1),
               job_assignments := AList.update (name job) p (job_assignments s1)\<rparr>)))"

section \<open>Metrics collection\<close>

text \<open>
  A dictionary field that holds an ISO timestamp string or nothing:
  \<open>Absent\<close> is a missing key, \<^verbatim>\<open>None\<close> or the empty string (all falsy), \<open>Iso t\<close> is
  a string that \<^verbatim>\<open>datetime.fromisoformat\<close> parses to \<open>t\<close>, \<open>Malformed\<close> is any other
  string, on which \<^verbatim>\<open>datetime.fromisoformat\<close> raises.
\<close>

datatype iso_field = Absent | Iso datetime | Malformed

text \<open>\<^verbatim>\<open>x.isoformat() if x else None\<close>\<close>

fun isoformat_opt :: "datetime option \<Rightarrow> iso_field" where
  "isoformat_opt None = Absent"
| "isoformat_opt (Some t) = Iso t"

text \<open>
  One entry of the dictionary that \<^verbatim>\<open>ChainlinkKeeperManager.get_job_status\<close> returns,
  and that method.
\<close>

record keeper_job_status =
  js_active :: bool
  js_last_execution :: iso_field
  js_contract_address :: string
  js_function_name :: string
  js_frequency :: int

fun keeper_status_loop ::
  "(string \<times> KeeperJob) list \<Rightarrow> (string \<times> keeper_job_status) list \<Rightarrow>
   (string \<times> keeper_job_status) list" where
  "keeper_status_loop [] status = status"
| "keeper_status_loop ((job_name, job) # rest) status =
     keeper_status_loop rest
       (AList.update job_name
          \<lparr>js_active = k_active job,
           js_last_execution = isoformat_opt (k_last_execution job),
           js_contract_address = k_contract_address job,
           js_function_name = k_function_name job,
           js_frequency = k_frequency job\<rparr> status)"

definition keeper_get_job_status ::
  "ChainlinkKeeperManager \<Rightarrow> (string \<times> keeper_job_status) list" where
  "keeper_get_job_status cm = keeper_status_loop (keeper_jobs cm) []"

text \<open>
  \<^verbatim>\<open>_update_metrics_from_chainlink\<close>: the loop over \<^verbatim>\<open>status.items()\<close>. A malformed
  timestamp aborts the loop with the entries before it already applied.
\<close>

fun update_metrics_from_chainlink ::
  "(string \<times> keeper_job_status) list \<Rightarrow> AutomationOrchestrator \<Rightarrow>
   (error + unit) \<times> AutomationOrchestrator" where
  "update_metrics_from_chainlink [] s = (Inr (), s)"
| "update_metrics_from_chainlink ((job_name, job_status) # rest) s =
     (case map_of (metrics s) job_name of
        None \<Rightarrow> update_metrics_from_chainlink rest s
      | Some m \<Rightarrow>
          (case js_last_execution job_status of
             Absent \<Rightarrow> update_metrics_from_chainlink rest s
           | Malformed \<Rightarrow> (Inl InvalidIsoFormat, s)
           | Iso last_exec \<Rightarrow>
               if (case last_execution_time m of None \<Rightarrow> True | Some t \<Rightarrow> last_exec > t)
               then update_metrics_from_chainlink rest
                      (s\<lparr>metrics :=
                           AList.update job_name
                             (m\<lparr>last_execution_time := Some last_exec,
                                total_executions := total_executions m + 1,
                                successful_executions := successful_executions m + 1\<rparr>)
                             (metrics s)\<rparr>)
               else update_metrics_from_chainlink rest s))"

text \<open>
  One entry of \<^verbatim>\<open>summary['tasks']\<close>; the keys read with a default
  (\<^verbatim>\<open>execution_count\<close>, \<^verbatim>\<open>success_rate\<close>) are optional, and so is the \<^verbatim>\<open>'tasks'\<close>
  key of the summary itself.
\<close>

record task_info =
  ti_active :: bool
  ti_task_id :: "string option"
  ti_created_at :: iso_field
  ti_last_execution :: iso_field
  ti_execution_count :: "int option"
  ti_success_rate :: "rat option"

record gelato_summary =
  sum_total_tasks :: int
  sum_active_tasks :: int
  sum_total_executions :: int
  sum_successful_executions :: int
  sum_tasks :: "(string \<times> task_info) list option"

text \<open>\<^verbatim>\<open>int(x)\<close> on a float: truncation towards zero.\<close>

definition py_int :: "rat \<Rightarrow> int" where
  "py_int q = (if q \<ge> 0 then \<lfloor>q\<rfloor> else \<lceil>q\<rceil>)"

text \<open>
  The counter block of \<^verbatim>\<open>_update_metrics_from_gelato\<close> for one metrics object: the
  counters change only when the reported count exceeds the stored total.
\<close>

definition gelato_counts :: "task_info \<Rightarrow> ExecutionMetrics \<Rightarrow> ExecutionMetrics" where
  "gelato_counts task_info m =
     (let execution_count = (case ti_execution_count task_info of None \<Rightarrow> 0 | Some c \<Rightarrow> c) in
      if execution_count > total_executions m then
        (let m1 = m\<lparr>total_executions := execution_count\<rparr>;
             success_rate = (case ti_success_rate task_info of None \<Rightarrow> 1 | Some r \<Rightarrow> r);
             m2 = m1\<lparr>successful_executions := py_int (of_int execution_count * success_rate)\<rparr>
         in m2\<lparr>failed_executions := execution_count - successful_executions m2\<rparr>)
      else m)"

fun gelato_loop ::
  "(string \<times> task_info) list \<Rightarrow> AutomationOrchestrator \<Rightarrow>
   (error + unit) \<times> AutomationOrchestrator" where
  "gelato_loop [] s = (Inr (), s)"
| "gelato_loop ((job_name, task_info) # rest) s =
     (case map_of (metrics s) job_name of
        None \<Rightarrow> gelato_loop rest s
      | Some m \<Rightarrow>
          (let m1 = gelato_counts task_info m;
               s1 = s\<lparr>metrics := AList.update job_name m1 (metrics s)\<rparr>
           in case ti_last_execution task_info of
                Absent \<Rightarrow> gelato_loop rest s1
              | Malformed \<Rightarrow> (Inl InvalidIsoFormat, s1)
              | Iso t \<Rightarrow>
                  gelato_loop rest
                    (s1\<lparr>metrics :=
                          AList.update job_name (m1\<lparr>last_execution_time := Some t\<rparr>)
                            (metrics s1)\<rparr>)))"

definition update_metrics_from_gelato ::
  "gelato_summary \<Rightarrow> AutomationOrchestrator \<Rightarrow> (error + unit) \<times> AutomationOrchestrator" where
  "update_metrics_from_gelato summary s =
     gelato_loop (case sum_tasks summary of None \<Rightarrow> [] | Some ts \<Rightarrow> ts) s"

text \<open>\<^verbatim>\<open>GelatoManager.get_task_summary\<close>\<close>

definition count_true :: "('a \<Rightarrow> bool) \<Rightarrow> 'a list \<Rightarrow> int" where
  "count_true P xs = int (length (filter P xs))"

fun task_summary_loop ::
  "TaskExecution list \<Rightarrow> (string \<times> GelatoTask) list \<Rightarrow> (string \<times> task_info) list \<Rightarrow>
   (string \<times> task_info) list" where
  "task_summary_loop execs [] acc = acc"
| "task_summary_loop execs ((task_name, task) # rest) acc =
     (let task_executions = filter (\<lambda>e. task_id e = t_task_id task) execs in
      task_summary_loop execs rest
        (AList.update task_name
           \<lparr>ti_active = t_active task,
            ti_task_id = t_task_id task,
            ti_created_at = isoformat_opt (t_created_at task),
            ti_last_execution = isoformat_opt (t_last_execution task),
            ti_execution_count = Some (int (length task_executions)),
            ti_success_rate =
              Some (if task_executions \<noteq> []
                    then of_int (count_true success task_executions)
                         / of_int (int (length task_executions))
                    else 0)\<rparr> acc))"

definition get_task_summary :: "GelatoManager \<Rightarrow> gelato_summary" where
  "get_task_summary gm =
     \<lparr>sum_total_tasks = int (length (tasks gm)),
      sum_active_tasks = count_true (\<lambda>(n, t). t_active t) (tasks gm),
      sum_total_executions = int (length (executions gm)),
      sum_successful_executions = count_true success (executions gm),
      sum_tasks = Some (task_summary_loop (executions gm) (tasks gm) [])\<rparr>"

text \<open>
  The body of one iteration of \<^verbatim>\<open>_collect_metrics\<close>: an exception of either update is
  caught and logged, and skips what is left of the iteration.
\<close>

definition collect_metrics_cycle :: "AutomationOrchestrator \<Rightarrow> AutomationOrchestrator" where
  "collect_metrics_cycle s =
     (case (case chainlink_manager s of
              None \<Rightarrow> (Inr (), s)
            | Some cm \<Rightarrow> update_metrics_from_chainlink (keeper_get_job_status cm) s) of
        (Inl e, s1) \<Rightarrow> s1
      | (Inr u, s1) \<Rightarrow>
          (case gelato_manager s1 of
             None \<Rightarrow> s1
           | Some gm \<Rightarrow> snd (update_metrics_from_gelato (get_task_summary gm) s1)))"

section \<open>Status and performance reports\<close>

text \<open>\<^verbatim>\<open>a / b\<close> on integers raises \<^verbatim>\<open>ZeroDivisionError\<close> when \<^verbatim>\<open>b\<close> is zero.\<close>

definition py_truediv :: "int \<Rightarrow> int \<Rightarrow> error + rat" where
  "py_truediv a b = (if b = 0 then Inl ZeroDivisionError else Inr (of_int a / of_int b))"

text \<open>\<^verbatim>\<open>a / b if b > 0 else 0\<close>, the guard of every ratio in the two reports.\<close>

definition guarded_ratio :: "int \<Rightarrow> int \<Rightarrow> error + rat" where
  "guarded_ratio a b = (if b > 0 then py_truediv a b else Inr 0)"

fun provider_value :: "AutomationProvider \<Rightarrow> string" where
  "provider_value CHAINLINK = ''chainlink''"
| "provider_value GELATO = ''gelato''"
| "provider_value AUTO = ''auto''"

record metrics_report =
  mr_total_executions :: int
  mr_successful_executions :: int
  mr_failed_executions :: int
  mr_success_rate :: rat
  mr_total_gas_used :: int
  mr_total_fees_paid :: int
  mr_last_execution :: iso_field

record job_report =
  jr_active :: bool
  jr_provider :: string
  jr_target_contract :: string
  jr_function_name :: string
  jr_frequency :: int
  jr_priority :: int
  jr_created_at :: iso_field
  jr_metrics :: metrics_report

record status_report =
  st_total_jobs :: int
  st_active_jobs :: int
  st_provider_distribution :: "(string \<times> int) list"
  st_jobs :: "(string \<times> job_report) list"

text \<open>The loop of \<^verbatim>\<open>get_job_status\<close> that counts the jobs of each provider.\<close>

fun provider_distribution ::
  "AutomationProvider list \<Rightarrow> (string \<times> int) list \<Rightarrow> (string \<times> int) list" where
  "provider_distribution [] acc = acc"
| "provider_distribution (p # ps) acc =
     provider_distribution ps
       (AList.update (provider_value p)
          ((case map_of acc (provider_value p) of None \<Rightarrow> 0 | Some c \<Rightarrow> c) + 1) acc)"

text \<open>The \<^verbatim>\<open>'metrics'\<close> dictionary of one job in \<^verbatim>\<open>get_job_status\<close>.\<close>

definition metrics_entry :: "ExecutionMetrics \<Rightarrow> error + metrics_report" where
  "metrics_entry m =
     (case guarded_ratio (successful_executions m) (total_executions m) of
        Inl e \<Rightarrow> Inl e
      | Inr rate \<Rightarrow>
          Inr \<lparr>mr_total_executions = total_executions m,
               mr_successful_executions = successful_executions m,
               mr_failed_executions = failed_executions m,
               mr_success_rate = rate,
               mr_total_gas_used = total_gas_used m,
               mr_total_fees_paid = total_fees_paid m,
               mr_last_execution = isoformat_opt (last_execution_time m)\<rparr>)"

text \<open>The loop of \<^verbatim>\<open>get_job_status\<close> over \<^verbatim>\<open>self.jobs.items()\<close>.\<close>

fun job_details ::
  "AutomationOrchestrator \<Rightarrow> (string \<times> AutomationJob) list \<Rightarrow> (string \<times> job_report) list \<Rightarrow>
   error + (string \<times> job_report) list" where
  "job_details s [] acc = Inr acc"
| "job_details s ((job_name, job) # rest) acc =
     (let m = (case map_of (metrics s) job_name of None \<Rightarrow> new_metrics | Some m \<Rightarrow> m) in
      case dict_get (job_assignments s) job_name of
        Inl e \<Rightarrow> Inl e
      | Inr p \<Rightarrow>
          (case metrics_entry m of
             Inl e \<Rightarrow> Inl e
           | Inr mr \<Rightarrow>
               job_details s rest
                 (AList.update job_name
                    \<lparr>jr_active = active job,
                     jr_provider = provider_value p,
                     jr_target_contract = target_contract job,
                     jr_function_name = function_name job,
                     jr_frequency = frequency job,
                     jr_priority = priority job,
                     jr_created_at = isoformat_opt (created_at job),
                     jr_metrics = mr\<rparr> acc)))"

definition get_job_status :: "AutomationOrchestrator \<Rightarrow> error + status_report" where
  "get_job_status s =
     (case job_details s (jobs s) [] of
        Inl e \<Rightarrow> Inl e
      | Inr js \<Rightarrow>
          Inr \<lparr>st_total_jobs = int (length (jobs s)),
               st_active_jobs = count_true (\<lambda>(n, job). active job) (jobs s),
               st_provider_distribution =
                 provider_distribution (map snd (job_assignments s)) [],
               st_jobs = js\<rparr>)"

record overall_metrics =
  om_total_executions :: int
  om_overall_success_rate :: rat
  om_total_gas_used :: int
  om_total_fees_paid :: int
  om_average_gas_per_execution :: rat

record provider_performance =
  pp_job_count :: int
  pp_estimated_cost_efficiency :: int

record job_metric =
  jm_executions :: int
  jm_success_rate :: rat
  jm_gas_efficiency :: rat

record performance_report =
  pr_overall_metrics :: overall_metrics
  pr_provider_performance :: "(string \<times> provider_performance) list"
  pr_job_metrics :: "(string \<times> job_metric) list"

text \<open>The dictionary comprehension \<^verbatim>\<open>'provider_performance'\<close>.\<close>

fun provider_performance_loop ::
  "AutomationOrchestrator \<Rightarrow> AutomationProvider list \<Rightarrow> (string \<times> provider_performance) list \<Rightarrow>
   error + (string \<times> provider_performance) list" where
  "provider_performance_loop s [] acc = Inr acc"
| "provider_performance_loop s (p # ps) acc =
     (if map_of provider_costs p \<noteq> None then
        (case dict_get provider_costs p of
           Inl e \<Rightarrow> Inl e
         | Inr c \<Rightarrow>
             provider_performance_loop s ps
               (AList.update (provider_value p)
                  \<lparr>pp_job_count = count_true (\<lambda>(n, q). q = p) (job_assignments s),
                   pp_estimated_cost_efficiency = c\<rparr> acc))
      else provider_performance_loop s ps acc)"

text \<open>The dictionary comprehension \<^verbatim>\<open>'job_metrics'\<close>.\<close>

fun job_metrics_loop ::
  "(string \<times> ExecutionMetrics) list \<Rightarrow> (string \<times> job_metric) list \<Rightarrow>
   error + (string \<times> job_metric) list" where
  "job_metrics_loop [] acc = Inr acc"
| "job_metrics_loop ((job_name, m) # rest) acc =
     (case guarded_ratio (successful_executions m) (total_executions m) of
        Inl e \<Rightarrow> Inl e
      | Inr rate \<Rightarrow>
          (case guarded_ratio (total_gas_used m) (total_executions m) of
             Inl e \<Rightarrow> Inl e
           | Inr eff \<Rightarrow>
               job_metrics_loop rest
                 (AList.update job_name
                    \<lparr>jm_executions = total_executions m,
                     jm_success_rate = rate,
                     jm_gas_efficiency = eff\<rparr> acc)))"

definition get_performance_report :: "AutomationOrchestrator \<Rightarrow> error + performance_report" where
  "get_performance_report s =
     (let total_execs = sum_list (map (\<lambda>(n, m). total_executions m) (metrics s));
          total_successful = sum_list (map (\<lambda>(n, m). successful_executions m) (metrics s));
          total_gas = sum_list (map (\<lambda>(n, m). total_gas_used m) (metrics s));
          total_fees = sum_list (map (\<lambda>(n, m). total_fees_paid m) (metrics s))
      in case guarded_ratio total_successful total_execs of
           Inl e \<Rightarrow> Inl e
         | Inr rate \<Rightarrow>
             (case guarded_ratio total_gas total_execs of
                Inl e \<Rightarrow> Inl e
              | Inr avg \<Rightarrow>
                  (case provider_performance_loop s [CHAINLINK, GELATO] [] of
                     Inl e \<Rightarrow> Inl e
                   | Inr pp \<Rightarrow>
                       (case job_metrics_loop (metrics s) [] of
                          Inl e \<Rightarrow> Inl e
                        | Inr jm \<Rightarrow>
                            Inr \<lparr>pr_overall_metrics =
                                   \<lparr>om_total_executions = total_execs,
                                    om_overall_success_rate = rate,
                                    om_total_gas_used = total_gas,
                                    om_total_fees_paid = total_fees,
                                    om_average_gas_per_execution = avg\<rparr>,
                                 pr_provider_performance = pp,
                                 pr_job_metrics = jm\<rparr>))))"

section \<open>The chain as seen through the web3 client\<close>

text \<open>
  The managers reach the chain only through their web3 client. The model keeps what the
  managers read from it and the transactions they submit:
  \<^item> \<open>link_balance\<close> is the outcome of \<^verbatim>\<open>link_token.balanceOf(account).call()\<close>
    (\<open>None\<close> when the call raises);
  \<^item> building, signing, sending a transaction and waiting for its receipt is one step
    that either raises before anything is submitted (\<open>accepts\<close> is false) or appends the
    transaction to \<open>sent\<close> and yields the receipt \<open>receipt_for\<close> gives;
  \<^item> a receipt carries its event logs, each an event name with the identifier it
    announces.
  The account and contract addresses are fixed at construction and are not repeated in the
  transactions.
\<close>

datatype tx =
    Approve int                         \<comment> \<open>\<^verbatim>\<open>approve(registry, amount)\<close>\<close>
  | RegisterUpkeep string string int bytes int
      \<comment> \<open>\<^verbatim>\<open>registerUpkeep(name, b'', target, gas_limit, admin, check_data, amount, 0)\<close>\<close>
  | CreateTask string string string bytes
      \<comment> \<open>\<^verbatim>\<open>createTask(target, keccak(selector)[:4], resolver, resolver_data)\<close>\<close>
  | CancelTask string                   \<comment> \<open>\<^verbatim>\<open>cancelTask(task_id)\<close>\<close>

record receipt =
  logs :: "(string \<times> int) list"

record web3 =
  link_balance :: "int option"
  accepts :: "tx \<Rightarrow> bool"
  receipt_for :: "tx \<Rightarrow> receipt"
  sent :: "tx list"

definition send_transaction :: "tx \<Rightarrow> web3 \<Rightarrow> (error + receipt) \<times> web3" where
  "send_transaction t w =
     (if accepts w t then (Inr (receipt_for w t), w\<lparr>sent := sent w @ [t]\<rparr>)
      else (Inl RpcError, w))"

section \<open>The keeper manager\<close>

text \<open>\<^verbatim>\<open>_extract_upkeep_id_from_receipt\<close>: \<^verbatim>\<open>return 1  # Placeholder\<close>\<close>

definition extract_upkeep_id_from_receipt :: "receipt \<Rightarrow> int" where
  "extract_upkeep_id_from_receipt r = 1"

text \<open>The default of \<^verbatim>\<open>funding_amount\<close>, 5 LINK.\<close>

definition default_funding_amount :: int where
  "default_funding_amount = 5 * 10 ^ 18"

text \<open>
  \<^verbatim>\<open>register_upkeep\<close>; its \<^verbatim>\<open>except\<close> clause logs and re-raises, so every exception
  leaves the method unchanged.
\<close>

definition register_upkeep ::
  "string \<Rightarrow> string \<Rightarrow> int \<Rightarrow> bytes \<Rightarrow> int \<Rightarrow> web3 \<Rightarrow> (error + int) \<times> web3" where
  "register_upkeep nm target gas check funding_amount w =
     (case link_balance w of
        None \<Rightarrow> (Inl RpcError, w)
      | Some balance \<Rightarrow>
          if balance < funding_amount then (Inl (InsufficientLink funding_amount balance), w)
          else
            (case send_transaction (Approve funding_amount) w of
               (Inl e, w1) \<Rightarrow> (Inl e, w1)
             | (Inr approve_receipt, w1) \<Rightarrow>
                 (case send_transaction
                         (RegisterUpkeep nm target gas check funding_amount) w1 of
                    (Inl e, w2) \<Rightarrow> (Inl e, w2)
                  | (Inr rcpt, w2) \<Rightarrow> (Inr (extract_upkeep_id_from_receipt rcpt), w2))))"

text \<open>\<^verbatim>\<open>ChainlinkKeeperManager.add_job\<close> and \<^verbatim>\<open>remove_job\<close>\<close>

definition keeper_add_job :: "KeeperJob \<Rightarrow> ChainlinkKeeperManager \<Rightarrow> ChainlinkKeeperManager" where
  "keeper_add_job job cm = cm\<lparr>keeper_jobs := AList.update (k_name job) job (keeper_jobs cm)\<rparr>"

definition remove_job :: "string \<Rightarrow> ChainlinkKeeperManager \<Rightarrow> ChainlinkKeeperManager" where
  "remove_job job_name cm =
     (if map_of (keeper_jobs cm) job_name \<noteq> None
      then cm\<lparr>keeper_jobs := AList.delete job_name (keeper_jobs cm)\<rparr>
      else cm)"

section \<open>The relay manager\<close>

text \<open>
  \<^verbatim>\<open>_extract_task_id_from_receipt\<close> ignores the receipt and builds the identifier from
  the clock, \<^verbatim>\<open>f"task_{datetime.now().timestamp()}"\<close>; \<open>stamp\<close> is the rendering of that
  clock reading.
\<close>

definition extract_task_id_from_receipt :: "string \<Rightarrow> receipt \<Rightarrow> string" where
  "extract_task_id_from_receipt stamp r = ''task_'' @ stamp"

text \<open>
  \<^verbatim>\<open>create_task\<close> mutates the task it is given and stores it; the updated task is
  returned beside the identifier. \<open>now\<close> is the clock reading stored in \<^verbatim>\<open>created_at\<close>.
\<close>

definition create_task ::
  "GelatoTask \<Rightarrow> string \<Rightarrow> datetime \<Rightarrow> GelatoManager \<Rightarrow> web3 \<Rightarrow>
   (error + string \<times> GelatoTask) \<times> GelatoManager \<times> web3" where
  "create_task task stamp now gm w =
     (case send_transaction
             (CreateTask (t_target_contract task) (t_function_selector task)
                (t_resolver_contract task) (t_resolver_data task)) w of
        (Inl e, w1) \<Rightarrow> (Inl e, gm, w1)
      | (Inr rcpt, w1) \<Rightarrow>
          (let tid = extract_task_id_from_receipt stamp rcpt;
               task' = task\<lparr>t_task_id := Some tid, t_created_at := Some now\<rparr>
           in (Inr (tid, task'),
               gm\<lparr>tasks := AList.update (t_name task) task' (tasks gm)\<rparr>, w1)))"

definition add_task :: "GelatoTask \<Rightarrow> GelatoManager \<Rightarrow> GelatoManager" where
  "add_task task gm = gm\<lparr>tasks := AList.update (t_name task) task (tasks gm)\<rparr>"

text \<open>
  \<^verbatim>\<open>cancel_task\<close>; \<^verbatim>\<open>not task.task_id\<close> holds for \<^verbatim>\<open>None\<close> and for the empty string.
\<close>

definition cancel_task ::
  "string \<Rightarrow> GelatoManager \<Rightarrow> web3 \<Rightarrow> (error + unit) \<times> GelatoManager \<times> web3" where
  "cancel_task task_name gm w =
     (case map_of (tasks gm) task_name of
        None \<Rightarrow> (Inl (TaskNotFound task_name), gm, w)
      | Some task \<Rightarrow>
          (case t_task_id task of
             None \<Rightarrow> (Inl (TaskHasNoId task_name), gm, w)
           | Some tid \<Rightarrow>
               if tid = [] then (Inl (TaskHasNoId task_name), gm, w)
               else
                 (case send_transaction (CancelTask tid) w of
                    (Inl e, w1) \<Rightarrow> (Inl e, gm, w1)
                  | (Inr rcpt, w1) \<Rightarrow>
                      (Inr (),
                       gm\<lparr>tasks :=
                            AList.update task_name (task\<lparr>t_active := False\<rparr>) (tasks gm)\<rparr>,
                       w1))))"

text \<open>
  One entry of the execution history of a status response; the keys read with a default
  are optional. A missing \<^verbatim>\<open>"timestamp"\<close> defaults to the empty string, which
  \<^verbatim>\<open>datetime.fromisoformat\<close> rejects like any malformed string.
\<close>

record execution_entry =
  ex_timestamp :: iso_field
  ex_gasUsed :: "int option"
  ex_feePaid :: "int option"
  ex_success :: "bool option"
  ex_error :: "string option"

record task_status =
  ts_executions :: "execution_entry list option"

text \<open>The \<^verbatim>\<open>TaskExecution\<close> built for an entry accepted as new.\<close>

definition task_execution_of :: "GelatoTask \<Rightarrow> datetime \<Rightarrow> execution_entry \<Rightarrow> TaskExecution" where
  "task_execution_of task t e =
     \<lparr>task_id = t_task_id task,
      execution_time = t,
      gas_used = (case ex_gasUsed e of None \<Rightarrow> 0 | Some g \<Rightarrow> g),
      fee_paid = (case ex_feePaid e of None \<Rightarrow> 0 | Some f \<Rightarrow> f),
      success = (case ex_success e of None \<Rightarrow> False | Some b \<Rightarrow> b),
      error_message = ex_error e\<rparr>"

text \<open>
  The loop of \<^verbatim>\<open>_process_task_status\<close> over the history, on the task and on
  \<^verbatim>\<open>self.executions\<close>. Its test for a new execution is
  \<^verbatim>\<open>not task.last_execution or execution_time > task.last_execution\<close>, against the
  task's current \<^verbatim>\<open>last_execution\<close>.
\<close>

definition newer_than_last_seen :: "datetime option \<Rightarrow> datetime \<Rightarrow> bool" where
  "newer_than_last_seen last_seen t = (case last_seen of None \<Rightarrow> True | Some l \<Rightarrow> t > l)"

fun process_executions ::
  "execution_entry list \<Rightarrow> GelatoTask \<Rightarrow> TaskExecution list \<Rightarrow>
   (error + unit) \<times> GelatoTask \<times> TaskExecution list" where
  "process_executions [] task execs = (Inr (), task, execs)"
| "process_executions (e # rest) task execs =
     (case ex_timestamp e of
        Iso t \<Rightarrow>
          if newer_than_last_seen (t_last_execution task) t
          then process_executions rest (task\<lparr>t_last_execution := Some t\<rparr>)
                 (execs @ [task_execution_of task t e])
          else process_executions rest task execs
      | Absent \<Rightarrow> (Inl InvalidIsoFormat, task, execs)
      | Malformed \<Rightarrow> (Inl InvalidIsoFormat, task, execs))"

definition process_task_status ::
  "GelatoTask \<Rightarrow> task_status \<Rightarrow> GelatoManager \<Rightarrow> (error + unit) \<times> GelatoTask \<times> GelatoManager" where
  "process_task_status task status gm =
     (case process_executions
             (case ts_executions status of None \<Rightarrow> [] | Some es \<Rightarrow> es) task (executions gm) of
        (r, task', execs') \<Rightarrow> (r, task', gm\<lparr>executions := execs'\<rparr>))"

section \<open>Deploying and cancelling jobs\<close>

text \<open>
  The clock readings of one \<^verbatim>\<open>deploy_job\<close>: the rendering of the timestamp in the task
  identifier, the \<^verbatim>\<open>created_at\<close> of the relay task, the \<^verbatim>\<open>created_at\<close> of the job.
\<close>

record clock =
  task_stamp :: string
  task_created :: datetime
  job_created :: datetime

definition deploy_chainlink_job ::
  "AutomationJob \<Rightarrow> AutomationOrchestrator \<Rightarrow> web3 \<Rightarrow>
   (error + unit) \<times> AutomationOrchestrator \<times> web3" where
  "deploy_chainlink_job job s w =
     (case chainlink_manager s of
        None \<Rightarrow> (Inl ChainlinkNotInitialized, s, w)
      | Some cm \<Rightarrow>
          (let keeper_job =
                 \<lparr>k_name = name job,
                  k_contract_address = target_contract job,
                  k_function_name = function_name job,
                  k_check_data = check_data job,
                  k_gas_limit = gas_limit job,
                  k_trigger_condition = ''time_based'',
                  k_frequency = frequency job,
                  k_last_execution = None,
                  k_active = True\<rparr>
           in case register_upkeep (name job) (target_contract job) (gas_limit job)
                     (check_data job) default_funding_amount w of
                (Inl e, w1) \<Rightarrow> (Inl e, s, w1)
              | (Inr upkeep_id, w1) \<Rightarrow>
                  (Inr (), s\<lparr>chainlink_manager := Some (keeper_add_job keeper_job cm)\<rparr>, w1)))"

definition deploy_gelato_job ::
  "AutomationJob \<Rightarrow> clock \<Rightarrow> AutomationOrchestrator \<Rightarrow> web3 \<Rightarrow>
   (error + unit) \<times> AutomationOrchestrator \<times> web3" where
  "deploy_gelato_job job clk s w =
     (case gelato_manager s of
        None \<Rightarrow> (Inl GelatoNotInitialized, s, w)
      | Some gm \<Rightarrow>
          (let gelato_task =
                 \<lparr>t_name = name job,
                  t_target_contract = target_contract job,
                  t_function_selector = function_name job @ ''()'',
                  t_resolver_contract = target_contract job,
                  t_resolver_data = check_data job,
                  t_interval = frequency job,
                  t_max_fee = max_fee job,
                  t_active = True,
                  t_task_id = None,
                  t_created_at = None,
                  t_last_execution = None\<rparr>
           in case create_task gelato_task (task_stamp clk) (task_created clk) gm w of
                (Inl e, gm1, w1) \<Rightarrow> (Inl e, s\<lparr>gelato_manager := Some gm1\<rparr>, w1)
              | (Inr (tid, task'), gm1, w1) \<Rightarrow>
                  (Inr (), s\<lparr>gelato_manager := Some (add_task task' gm1)\<rparr>, w1)))"

definition deploy_job ::
  "string \<Rightarrow> clock \<Rightarrow> AutomationOrchestrator \<Rightarrow> web3 \<Rightarrow>
   (error + unit) \<times> AutomationOrchestrator \<times> web3" where
  "deploy_job job_name clk s w =
     (case map_of (jobs s) job_name of
        None \<Rightarrow> (Inl (JobNotFound job_name), s, w)
      | Some job \<Rightarrow>
          (case dict_get (job_assignments s) job_name of
             Inl e \<Rightarrow> (Inl e, s, w)
           | Inr p \<Rightarrow>
               (case (if p = CHAINLINK then deploy_chainlink_job job s w
                      else if p = GELATO then deploy_gelato_job job clk s w
                      else (Inr (), s, w)) of
                  (Inl e, s1, w1) \<Rightarrow> (Inl e, s1, w1)
                | (Inr u, s1, w1) \<Rightarrow>
                    (Inr (),
                     s1\<lparr>jobs :=
                          AList.update job_name (job\<lparr>created_at := Some (job_created clk)\<rparr>)
                            (jobs s1)\<rparr>,
                     w1))))"

text \<open>
  \<^verbatim>\<open>cancel_job\<close>: the provider's cancel operation is called on the assigned manager
  whatever the job's \<^verbatim>\<open>active\<close> flag is; a manager that was never initialised is
  \<^verbatim>\<open>None\<close>, and the call on it raises.
\<close>

definition cancel_job ::
  "string \<Rightarrow> AutomationOrchestrator \<Rightarrow> web3 \<Rightarrow>
   (error + unit) \<times> AutomationOrchestrator \<times> web3" where
  "cancel_job job_name s w =
     (case map_of (jobs s) job_name of
        None \<Rightarrow> (Inl (JobNotFound job_name), s, w)
      | Some job \<Rightarrow>
          (case dict_get (job_assignments s) job_name of
             Inl e \<Rightarrow> (Inl e, s, w)
           | Inr p \<Rightarrow>
               (case (if p = CHAINLINK then
                        (case chainlink_manager s of
                           None \<Rightarrow> (Inl AttributeError, s, w)
                         | Some cm \<Rightarrow>
                             (Inr (), s\<lparr>chainlink_manager := Some (remove_job job_name cm)\<rparr>, w))
                      else if p = GELATO then
                        (case gelato_manager s of
                           None \<Rightarrow> (Inl AttributeError, s, w)
                         | Some gm \<Rightarrow>
                             (case cancel_task job_name gm w of
                                (r, gm1, w1) \<Rightarrow> (r, s\<lparr>gelato_manager := Some gm1\<rparr>, w1)))
                      else (Inr (), s, w)) of
                  (Inl e, s1, w1) \<Rightarrow> (Inl e, s1, w1)
                | (Inr u, s1, w1) \<Rightarrow>
                    (Inr (),
                     s1\<lparr>jobs := AList.update job_name (job\<lparr>active := False\<rparr>) (jobs s1)\<rparr>,
                     w1))))"

section \<open>Runs of the orchestrator\<close>

text \<open>
  A metrics-update step applies one of the two update methods to whatever status the
  provider reports; \<^verbatim>\<open>_collect_metrics\<close> catches and logs the exception of a step, so a
  run continues from the state the step left.
\<close>

datatype metrics_update =
    ChainlinkUpdate "(string \<times> keeper_job_status) list"
  | GelatoUpdate gelato_summary

fun apply_update :: "metrics_update \<Rightarrow> AutomationOrchestrator \<Rightarrow> AutomationOrchestrator" where
  "apply_update (ChainlinkUpdate status) s = snd (update_metrics_from_chainlink status s)"
| "apply_update (GelatoUpdate summary) s = snd (update_metrics_from_gelato summary s)"

fun run_updates :: "metrics_update list \<Rightarrow> AutomationOrchestrator \<Rightarrow> AutomationOrchestrator" where
  "run_updates [] s = s"
| "run_updates (u # us) s = run_updates us (apply_update u s)"

text \<open>
  The states the orchestrator can be in: it is constructed, then jobs are added, deployed
  and cancelled, metrics are collected, and the monitoring loops of the two managers
  change the managers' own state (here: in any way).
\<close>

inductive reachable :: "AutomationOrchestrator \<Rightarrow> bool" where
  initial: "reachable (new_orchestrator chainlink_ok gelato_ok)"
| added: "reachable s \<Longrightarrow> reachable (snd (add_job job s))"
| deployed: "reachable s \<Longrightarrow> reachable (fst (snd (deploy_job job_name clk s w)))"
| cancelled: "reachable s \<Longrightarrow> reachable (fst (snd (cancel_job job_name s w)))"
| updated: "reachable s \<Longrightarrow> reachable (apply_update u s)"
| collected: "reachable s \<Longrightarrow> reachable (collect_metrics_cycle s)"
| keeper_step:
    "reachable s \<Longrightarrow> chainlink_manager s = Some cm \<Longrightarrow>
     reachable (s\<lparr>chainlink_manager := Some cm'\<rparr>)"
| relay_step:
    "reachable s \<Longrightarrow> gelato_manager s = Some gm \<Longrightarrow>
     reachable (s\<lparr>gelato_manager := Some gm'\<rparr>)"

section \<open>The selection rule as the specification writes it\<close>

text \<open>
  The specification's formula:
  \<^verbatim>\<open>score = max(0, 100 - estimated_cost(job)/1000) + base_reliability + feature_bonus\<close>
  with \<^verbatim>\<open>estimated_cost(job) = cost_per_gas_unit * gas_budget\<close>, and its constants for the
  keeper (registry-style) and the relay adapter. Priority medium is 2.
\<close>

definition spec_score :: "int \<Rightarrow> rat \<Rightarrow> rat \<Rightarrow> int \<Rightarrow> rat" where
  "spec_score cost_per_gas_unit base_reliability feature_bonus gas_budget =
     max 0 (100 - of_int (cost_per_gas_unit * gas_budget) / 1000)
       + base_reliability + feature_bonus"

definition spec_keeper_score :: "AutomationJob \<Rightarrow> rat" where
  "spec_keeper_score job =
     spec_score 20 90 (if frequency job \<ge> 3600 then 20 else 0) (gas_limit job)"

definition spec_relay_score :: "AutomationJob \<Rightarrow> rat" where
  "spec_relay_score job =
     spec_score 25 85
       ((if frequency job < 3600 then 25 else 0) + (if priority job \<ge> 2 then 15 else 0))
       (gas_limit job)"

section \<open>Example inputs\<close>

text \<open>
  A job as \<^verbatim>\<open>main\<close> of the orchestrator builds it, with the name, gas limit, frequency,
  priority and requested provider left open.
\<close>

definition example_job ::
  "string \<Rightarrow> int \<Rightarrow> int \<Rightarrow> int \<Rightarrow> AutomationProvider \<Rightarrow> AutomationJob" where
  "example_job nm gas freq prio prov =
     \<lparr>name = nm, target_contract = ''0x...'', function_name = ''rebalance'',
      check_data = [], gas_limit = gas, frequency = freq, max_fee = 10 ^ 17,
      priority = prio, provider = prov, active = True, created_at = None,
      last_execution = None\<rparr>"

text \<open>Clock readings, a web3 client whose node accepts every transaction, and a keeper
  status entry, for the examples below.\<close>

definition example_clock :: clock where
  "example_clock = \<lparr>task_stamp = ''1700000000.0'', task_created = 1, job_created = 2\<rparr>"

definition example_web3 :: "int \<Rightarrow> web3" where
  "example_web3 balance =
     \<lparr>link_balance = Some balance, accepts = (\<lambda>t. True),
      receipt_for = (\<lambda>t. \<lparr>logs = [(''UpkeepRegistered'', 42)]\<rparr>), sent = []\<rparr>"

definition example_status :: "datetime \<Rightarrow> keeper_job_status" where
  "example_status t =
     \<lparr>js_active = True, js_last_execution = Iso t, js_contract_address = ''0x...'',
      js_function_name = ''rebalance'', js_frequency = 86400\<rparr>"

text \<open>
  The state after a job was added to an orchestrator with both managers and one
  collection cycle has reported an execution of it.
\<close>

definition polled_state :: AutomationOrchestrator where
  "polled_state =
     apply_update (ChainlinkUpdate [(''vault_rebalance'', example_status 5)])
       (snd (add_job (example_job ''vault_rebalance'' 500000 86400 2 AUTO)
               (new_orchestrator True True)))"

text \<open>A relay summary that reports \<open>n\<close> executions of one task at a success rate.\<close>

definition example_summary :: "string \<Rightarrow> int \<Rightarrow> rat \<Rightarrow> gelato_summary" where
  "example_summary nm n rate =
     \<lparr>sum_total_tasks = 1, sum_active_tasks = 1, sum_total_executions = n,
      sum_successful_executions = py_int (of_int n * rate),
      sum_tasks =
        Some [(nm, \<lparr>ti_active = True, ti_task_id = Some ''task_1700000000.0'',
                    ti_created_at = Iso 1, ti_last_execution = Iso 9,
                    ti_execution_count = Some n, ti_success_rate = Some rate\<rparr>)]\<rparr>"

text \<open>The state right after a first job was added: no execution has been reported.\<close>

definition added_state :: AutomationOrchestrator where
  "added_state =
     snd (add_job (example_job ''vault_rebalance'' 500000 86400 2 AUTO)
            (new_orchestrator True True))"

text \<open>
  Two runs on an orchestrator with both managers: a job requested for the relay, and one
  requested for the keeper (with 6 LINK on the account), is added, deployed and then
  cancelled.
\<close>

definition relay_deployed :: "(error + unit) \<times> AutomationOrchestrator \<times> web3" where
  "relay_deployed =
     deploy_job ''yield_harvest'' example_clock
       (snd (add_job (example_job ''yield_harvest'' 300000 1800 3 GELATO)
               (new_orchestrator True True)))
       (example_web3 0)"

definition relay_cancelled :: "(error + unit) \<times> AutomationOrchestrator \<times> web3" where
  "relay_cancelled =
     cancel_job ''yield_harvest'' (fst (snd relay_deployed)) (snd (snd relay_deployed))"

definition keeper_deployed :: "(error + unit) \<times> AutomationOrchestrator \<times> web3" where
  "keeper_deployed =
     deploy_job ''vault_rebalance'' example_clock
       (snd (add_job (example_job ''vault_rebalance'' 500000 86400 2 CHAINLINK)
               (new_orchestrator True True)))
       (example_web3 (6 * 10 ^ 18))"

definition keeper_cancelled :: "(error + unit) \<times> AutomationOrchestrator \<times> web3" where
  "keeper_cancelled =
     cancel_job ''vault_rebalance'' (fst (snd keeper_deployed)) (snd (snd keeper_deployed))"

text \<open>
  A relay task with a given last-seen execution time, and a history entry with a given
  timestamp and outcome.
\<close>

definition example_task :: "datetime option \<Rightarrow> GelatoTask" where
  "example_task last_seen =
     \<lparr>t_name = ''yield_harvest'', t_target_contract = ''0x...'',
      t_function_selector = ''harvestYield()'', t_resolver_contract = ''0x...'',
      t_resolver_data = [], t_interval = 3600, t_max_fee = 10 ^ 16, t_active = True,
      t_task_id = Some ''task_1700000000.0'', t_created_at = Some 1,
      t_last_execution = last_seen\<rparr>"

definition example_entry :: "datetime \<Rightarrow> bool \<Rightarrow> execution_entry" where
  "example_entry t ok =
     \<lparr>ex_timestamp = Iso t, ex_gasUsed = Some 21000, ex_feePaid = Some 1,
      ex_success = Some ok, ex_error = (if ok then None else Some ''reverted'')\<rparr>"

section \<open>Properties\<close>

subsection \<open>Provider selection\<close>

lemma score_chainlink_spec: "score_chainlink job = Inr (spec_keeper_score job)"
  by (simp add: score_chainlink_def spec_keeper_score_def spec_score_def dict_get_def
      provider_costs_def Let_def)

lemma score_gelato_spec: "score_gelato job = Inr (spec_relay_score job)"
  by (simp add: score_gelato_def spec_relay_score_def spec_score_def dict_get_def
      provider_costs_def Let_def)

lemma select_both:
  assumes "chainlink_manager s = Some cm" and "gelato_manager s = Some gm"
  shows "select_best_provider s job =
           Inr (if spec_relay_score job > spec_keeper_score job then GELATO else CHAINLINK)"
  using assms
  by (simp add: select_best_provider_def score_chainlink_spec score_gelato_spec)

text \<open>
  Claim C1. For a job that requests the provider \<^verbatim>\<open>auto\<close>, with both managers
  initialised, the score the code computes for each manager is the specification's
  formula with the keeper constants (cost 20, reliability 90, +20 when the frequency is
  at least 3600) and the relay constants (cost 25, reliability 85, +25 when the frequency
  is below 3600, +15 when the priority is at least medium); the manager with the higher
  score is selected (the keeper unless the relay scores strictly higher) and \<^verbatim>\<open>add_job\<close>
  assigns it. For gas 500000, frequency 86400, priority medium the scores are 110 and 100
  and the keeper is selected; for gas 300000, frequency 1800, priority high they are 90
  and 125 and the relay is selected.
\<close>

theorem select_best_provider_score_formula:
  assumes "chainlink_manager s = Some cm" and "gelato_manager s = Some gm"
    and "provider job = AUTO"
  shows "score_chainlink job = Inr (spec_keeper_score job)
       \<and> score_gelato job = Inr (spec_relay_score job)
       \<and> select_best_provider s job =
           Inr (if spec_relay_score job > spec_keeper_score job then GELATO else CHAINLINK)
       \<and> fst (add_job job s) = Inr ()
       \<and> map_of (job_assignments (snd (add_job job s))) (name job) =
           Some (if spec_relay_score job > spec_keeper_score job then GELATO else CHAINLINK)
       \<and> (gas_limit job = 500000 \<and> frequency job = 86400 \<and> priority job = 2 \<longrightarrow>
            spec_keeper_score job = 110 \<and> spec_relay_score job = 100
            \<and> select_best_provider s job = Inr CHAINLINK)
       \<and> (gas_limit job = 300000 \<and> frequency job = 1800 \<and> priority job = 3 \<longrightarrow>
            spec_keeper_score job = 90 \<and> spec_relay_score job = 125
            \<and> select_best_provider s job = Inr GELATO)"
proof -
  have sel: "select_best_provider s job =
           Inr (if spec_relay_score job > spec_keeper_score job then GELATO else CHAINLINK)"
    using assms(1,2) by (rule select_both)
  have sel1: "select_best_provider (s\<lparr>metrics := ms\<rparr>) job =
           Inr (if spec_relay_score job > spec_keeper_score job then GELATO else CHAINLINK)" for ms
    using assms(1,2) by (intro select_both[where cm=cm and gm=gm]) simp_all
  have add1: "fst (add_job job s) = Inr ()"
    using assms(3) by (simp add: add_job_def Let_def sel1)
  have add2: "map_of (job_assignments (snd (add_job job s))) (name job) =
           Some (if spec_relay_score job > spec_keeper_score job then GELATO else CHAINLINK)"
    using assms(3) by (simp add: add_job_def Let_def sel1 update_conv')
  have ex1: "gas_limit job = 500000 \<and> frequency job = 86400 \<and> priority job = 2 \<longrightarrow>
            spec_keeper_score job = 110 \<and> spec_relay_score job = 100
            \<and> select_best_provider s job = Inr CHAINLINK"
    by (simp add: sel spec_keeper_score_def spec_relay_score_def spec_score_def)
  have ex2: "gas_limit job = 300000 \<and> frequency job = 1800 \<and> priority job = 3 \<longrightarrow>
            spec_keeper_score job = 90 \<and> spec_relay_score job = 125
            \<and> select_best_provider s job = Inr GELATO"
    by (simp add: sel spec_keeper_score_def spec_relay_score_def spec_score_def)
  show ?thesis
    using score_chainlink_spec score_gelato_spec sel add1 add2 ex1 ex2 by blast
qed

theorem select_best_provider_score_formula_witness:
  "select_best_provider (new_orchestrator True True)
       (example_job ''vault_rebalance'' 500000 86400 2 AUTO) = Inr CHAINLINK
   \<and> spec_keeper_score (example_job ''vault_rebalance'' 500000 86400 2 AUTO) = 110
   \<and> spec_relay_score (example_job ''vault_rebalance'' 500000 86400 2 AUTO) = 100
   \<and> fst (add_job (example_job ''vault_rebalance'' 500000 86400 2 AUTO)
            (new_orchestrator True True)) = Inr ()
   \<and> select_best_provider (new_orchestrator True True)
       (example_job ''yield_harvest'' 300000 1800 3 AUTO) = Inr GELATO
   \<and> spec_keeper_score (example_job ''yield_harvest'' 300000 1800 3 AUTO) = 90
   \<and> spec_relay_score (example_job ''yield_harvest'' 300000 1800 3 AUTO) = 125"
  using select_best_provider_score_formula
          [of "new_orchestrator True True" "\<lparr>keeper_jobs = []\<rparr>"
              "\<lparr>tasks = [], executions = []\<rparr>"
              "example_job ''vault_rebalance'' 500000 86400 2 AUTO"]
        select_best_provider_score_formula
          [of "new_orchestrator True True" "\<lparr>keeper_jobs = []\<rparr>"
              "\<lparr>tasks = [], executions = []\<rparr>"
              "example_job ''yield_harvest'' 300000 1800 3 AUTO"]
  by (simp add: new_orchestrator_def example_job_def)

subsection \<open>Adding jobs\<close>

lemma select_metrics_irrelevant:
  "select_best_provider (s\<lparr>metrics := ms\<rparr>) job = select_best_provider s job"
  by (simp add: select_best_provider_def split: option.splits sum.splits)

lemma select_cases:
  "select_best_provider s job =
     (if chainlink_manager s = None \<and> gelato_manager s = None then Inl NoProvidersAvailable
      else if chainlink_manager s = None then Inr GELATO
      else if gelato_manager s = None then Inr CHAINLINK
      else Inr (if spec_relay_score job > spec_keeper_score job then GELATO else CHAINLINK))"
  by (auto simp add: select_best_provider_def score_chainlink_spec score_gelato_spec)

text \<open>
  Claim C2, as stated, fails: \<^verbatim>\<open>add_job\<close> has no availability check. With only the
  relay manager initialised, a job that requests the keeper explicitly is added without
  error and assigned to the keeper.
\<close>

theorem add_job_explicit_uninitialized_counterexample:
  "chainlink_manager (new_orchestrator False True) = None
   \<and> fst (add_job (example_job ''vault_rebalance'' 500000 86400 2 CHAINLINK)
            (new_orchestrator False True)) = Inr ()
   \<and> map_of (job_assignments
         (snd (add_job (example_job ''vault_rebalance'' 500000 86400 2 CHAINLINK)
                 (new_orchestrator False True)))) ''vault_rebalance'' = Some CHAINLINK"
  by (simp add: add_job_def new_orchestrator_def example_job_def Let_def)

text \<open>
  Claim C2, amended. For every job whose requested provider is explicit, \<^verbatim>\<open>add_job\<close>
  succeeds in every state and assigns that provider directly: its outcome does not depend
  on which managers are initialised, so no score is consulted. A manager that was never
  initialised is reported only by \<^verbatim>\<open>deploy_job\<close>, which then fails with the
  not-initialised error and changes nothing.
\<close>

theorem add_job_explicit_provider:
  assumes "provider job \<noteq> AUTO"
  shows "add_job job s =
           (Inr (),
            s\<lparr>metrics := AList.update (name job) new_metrics (metrics s),
              jobs := AList.update (name job) job (jobs s),
              job_assignments := AList.update (name job) (provider job) (job_assignments s)\<rparr>)
       \<and> (provider job = CHAINLINK \<and> chainlink_manager s = None \<longrightarrow>
            deploy_job (name job) clk (snd (add_job job s)) w =
              (Inl ChainlinkNotInitialized, snd (add_job job s), w))
       \<and> (provider job = GELATO \<and> gelato_manager s = None \<longrightarrow>
            deploy_job (name job) clk (snd (add_job job s)) w =
              (Inl GelatoNotInitialized, snd (add_job job s), w))"
proof -
  have a: "add_job job s =
           (Inr (),
            s\<lparr>metrics := AList.update (name job) new_metrics (metrics s),
              jobs := AList.update (name job) job (jobs s),
              job_assignments := AList.update (name job) (provider job) (job_assignments s)\<rparr>)"
    using assms by (simp add: add_job_def Let_def)
  have b: "provider job = CHAINLINK \<and> chainlink_manager s = None \<longrightarrow>
            deploy_job (name job) clk (snd (add_job job s)) w =
              (Inl ChainlinkNotInitialized, snd (add_job job s), w)"
    by (simp add: a deploy_job_def dict_get_def update_conv' deploy_chainlink_job_def)
  have c: "provider job = GELATO \<and> gelato_manager s = None \<longrightarrow>
            deploy_job (name job) clk (snd (add_job job s)) w =
              (Inl GelatoNotInitialized, snd (add_job job s), w)"
    by (simp add: a deploy_job_def dict_get_def update_conv' deploy_gelato_job_def)
  show ?thesis using a b c by blast
qed

theorem add_job_explicit_provider_witness:
  "add_job (example_job ''vault_rebalance'' 500000 86400 2 CHAINLINK) (new_orchestrator False True) =
     (Inr (),
      (new_orchestrator False True)
        \<lparr>metrics := [(''vault_rebalance'', new_metrics)],
         jobs := [(''vault_rebalance'', example_job ''vault_rebalance'' 500000 86400 2 CHAINLINK)],
         job_assignments := [(''vault_rebalance'', CHAINLINK)]\<rparr>)
   \<and> fst (deploy_job ''vault_rebalance'' example_clock
        (snd (add_job (example_job ''vault_rebalance'' 500000 86400 2 CHAINLINK)
                (new_orchestrator False True))) (example_web3 0))
       = Inl ChainlinkNotInitialized
   \<and> fst (deploy_job ''yield_harvest'' example_clock
        (snd (add_job (example_job ''yield_harvest'' 300000 1800 3 GELATO)
                (new_orchestrator True False))) (example_web3 0))
       = Inl GelatoNotInitialized"
proof -
  let ?j1 = "example_job ''vault_rebalance'' 500000 86400 2 CHAINLINK"
  let ?j2 = "example_job ''yield_harvest'' 300000 1800 3 GELATO"
  have p1: "provider ?j1 \<noteq> AUTO" "provider ?j1 = CHAINLINK" "name ?j1 = ''vault_rebalance''"
    and p2: "provider ?j2 \<noteq> AUTO" "provider ?j2 = GELATO" "name ?j2 = ''yield_harvest''"
    by (simp_all add: example_job_def)
  have m: "chainlink_manager (new_orchestrator False True) = None"
    "gelato_manager (new_orchestrator True False) = None"
    "metrics (new_orchestrator False True) = []"
    "jobs (new_orchestrator False True) = []"
    "job_assignments (new_orchestrator False True) = []"
    by (simp_all add: new_orchestrator_def)
  from add_job_explicit_provider [OF p1(1), of "new_orchestrator False True" example_clock "example_web3 0"]
  have a: "add_job ?j1 (new_orchestrator False True) =
     (Inr (),
      (new_orchestrator False True)
        \<lparr>metrics := [(''vault_rebalance'', new_metrics)],
         jobs := [(''vault_rebalance'', ?j1)],
         job_assignments := [(''vault_rebalance'', CHAINLINK)]\<rparr>)"
    and b: "fst (deploy_job ''vault_rebalance'' example_clock
        (snd (add_job ?j1 (new_orchestrator False True))) (example_web3 0))
       = Inl ChainlinkNotInitialized"
    by (auto simp add: p1 m)
  from add_job_explicit_provider [OF p2(1), of "new_orchestrator True False" example_clock "example_web3 0"]
  have c: "fst (deploy_job ''yield_harvest'' example_clock
        (snd (add_job ?j2 (new_orchestrator True False))) (example_web3 0))
       = Inl GelatoNotInitialized"
    by (auto simp add: p2 m)
  show ?thesis using a b c by blast
qed

lemma polled_state_eq:
  "polled_state =
     \<lparr>chainlink_manager = Some \<lparr>keeper_jobs = []\<rparr>,
      gelato_manager = Some \<lparr>tasks = [], executions = []\<rparr>,
      jobs = [(''vault_rebalance'', example_job ''vault_rebalance'' 500000 86400 2 CHAINLINK)],
      job_assignments = [(''vault_rebalance'', CHAINLINK)],
      metrics = [(''vault_rebalance'',
                  new_metrics\<lparr>last_execution_time := Some 5, total_executions := 1,
                                successful_executions := 1\<rparr>)]\<rparr>"
  by (simp add: polled_state_def add_job_def select_cases new_orchestrator_def Let_def
      example_status_def spec_keeper_score_def spec_relay_score_def spec_score_def
      example_job_def new_metrics_def)

text \<open>
  Claim C3, as stated, fails: \<^verbatim>\<open>add_job\<close> has no duplicate check. Adding a second job
  under the name of a stored job that has one recorded execution succeeds, replaces the
  stored job and resets its metrics.
\<close>

theorem add_job_duplicate_counterexample:
  "map_of (jobs polled_state) ''vault_rebalance'' =
     Some (example_job ''vault_rebalance'' 500000 86400 2 CHAINLINK)
   \<and> map_of (metrics polled_state) ''vault_rebalance'' =
     Some (new_metrics\<lparr>last_execution_time := Some 5, total_executions := 1,
                        successful_executions := 1\<rparr>)
   \<and> fst (add_job (example_job ''vault_rebalance'' 300000 1800 3 AUTO) polled_state) = Inr ()
   \<and> map_of (jobs (snd (add_job (example_job ''vault_rebalance'' 300000 1800 3 AUTO)
                           polled_state))) ''vault_rebalance'' =
     Some (example_job ''vault_rebalance'' 300000 1800 3 GELATO)
   \<and> map_of (metrics (snd (add_job (example_job ''vault_rebalance'' 300000 1800 3 AUTO)
                              polled_state))) ''vault_rebalance'' =
     Some new_metrics"
  by (simp add: polled_state_eq add_job_def select_cases Let_def
      spec_keeper_score_def spec_relay_score_def spec_score_def example_job_def)

lemma add_job_no_provider:
  assumes "provider job = AUTO" "chainlink_manager s = None" "gelato_manager s = None"
  shows "add_job job s =
           (Inl NoProvidersAvailable,
            s\<lparr>metrics := AList.update (name job) new_metrics (metrics s)\<rparr>)"
  using assms by (simp add: add_job_def Let_def select_cases)

lemma add_job_resolved:
  assumes "\<not> (provider job = AUTO \<and> chainlink_manager s = None \<and> gelato_manager s = None)"
  shows "\<exists>p. (p = provider job \<or> provider job = AUTO) \<and> p \<noteq> AUTO
           \<and> add_job job s =
               (Inr (),
                s\<lparr>metrics := AList.update (name job) new_metrics (metrics s),
                  jobs := AList.update (name job) (job\<lparr>provider := p\<rparr>) (jobs s),
                  job_assignments := AList.update (name job) p (job_assignments s)\<rparr>)"
proof (cases "provider job = AUTO")
  case False
  then show ?thesis by (simp add: add_job_def Let_def)
next
  case True
  with assms have "chainlink_manager s \<noteq> None \<or> gelato_manager s \<noteq> None" by simp
  then have "\<exists>p. p \<noteq> AUTO \<and> select_best_provider s job = Inr p"
    by (auto simp add: select_cases)
  then obtain p where p: "p \<noteq> AUTO" "select_best_provider s job = Inr p" by blast
  show ?thesis
    using True p by (intro exI[of _ p]) (simp add: add_job_def Let_def select_metrics_irrelevant)
qed

text \<open>
  Claim C3, amended. In every state in which a job named \<open>n\<close> exists, \<^verbatim>\<open>add_job\<close> with
  another job named \<open>n\<close> never fails as a duplicate: it resets the metrics of \<open>n\<close> to
  zero, and its only error is that no provider is available, raised exactly when the new
  job requests \<^verbatim>\<open>auto\<close> and no manager is initialised; then the stored job and its
  assignment stay as they were. Otherwise it succeeds, and the stored job and its
  assignment are replaced by the new job with its resolved provider.
\<close>

theorem add_job_existing_name_replaces:
  assumes "map_of (jobs s) (name job) = Some old"
  shows "map_of (metrics (snd (add_job job s))) (name job) = Some new_metrics
       \<and> (fst (add_job job s) = Inl NoProvidersAvailable \<or> fst (add_job job s) = Inr ())
       \<and> (fst (add_job job s) = Inl NoProvidersAvailable \<longleftrightarrow>
            provider job = AUTO \<and> chainlink_manager s = None \<and> gelato_manager s = None)
       \<and> (fst (add_job job s) = Inl NoProvidersAvailable \<longrightarrow>
            jobs (snd (add_job job s)) = jobs s
            \<and> job_assignments (snd (add_job job s)) = job_assignments s)
       \<and> (fst (add_job job s) = Inr () \<longrightarrow>
            (\<exists>p. (p = provider job \<or> provider job = AUTO) \<and> p \<noteq> AUTO
                \<and> map_of (jobs (snd (add_job job s))) (name job) = Some (job\<lparr>provider := p\<rparr>)
                \<and> map_of (job_assignments (snd (add_job job s))) (name job) = Some p))"
proof (cases "provider job = AUTO \<and> chainlink_manager s = None \<and> gelato_manager s = None")
  case True
  then have "add_job job s =
           (Inl NoProvidersAvailable,
            s\<lparr>metrics := AList.update (name job) new_metrics (metrics s)\<rparr>)"
    by (simp add: add_job_no_provider)
  with True show ?thesis by (simp add: update_conv')
next
  case False
  from add_job_resolved [OF False] obtain p where
    p: "p = provider job \<or> provider job = AUTO" "p \<noteq> AUTO"
    and a: "add_job job s =
               (Inr (),
                s\<lparr>metrics := AList.update (name job) new_metrics (metrics s),
                  jobs := AList.update (name job) (job\<lparr>provider := p\<rparr>) (jobs s),
                  job_assignments := AList.update (name job) p (job_assignments s)\<rparr>)"
    by blast
  have "\<exists>q. (q = provider job \<or> provider job = AUTO) \<and> q \<noteq> AUTO
                \<and> map_of (jobs (snd (add_job job s))) (name job) = Some (job\<lparr>provider := q\<rparr>)
                \<and> map_of (job_assignments (snd (add_job job s))) (name job) = Some q"
    using p by (intro exI[of _ p]) (simp add: a update_conv')
  then show ?thesis using False by (simp add: a update_conv')
qed

theorem add_job_existing_name_replaces_witness:
  "map_of (jobs polled_state) ''vault_rebalance'' =
     Some (example_job ''vault_rebalance'' 500000 86400 2 CHAINLINK)
   \<and> map_of (metrics (snd (add_job (example_job ''vault_rebalance'' 300000 1800 3 GELATO)
                              polled_state))) ''vault_rebalance'' = Some new_metrics
   \<and> fst (add_job (example_job ''vault_rebalance'' 300000 1800 3 GELATO) polled_state) = Inr ()
   \<and> map_of (jobs (snd (add_job (example_job ''vault_rebalance'' 300000 1800 3 GELATO)
                           polled_state))) ''vault_rebalance'' =
     Some (example_job ''vault_rebalance'' 300000 1800 3 GELATO)
   \<and> fst (add_job (example_job ''vault_rebalance'' 300000 1800 3 AUTO)
            (polled_state\<lparr>chainlink_manager := None, gelato_manager := None\<rparr>)) =
       Inl NoProvidersAvailable
   \<and> jobs (snd (add_job (example_job ''vault_rebalance'' 300000 1800 3 AUTO)
            (polled_state\<lparr>chainlink_manager := None, gelato_manager := None\<rparr>))) =
       jobs polled_state"
proof -
  let ?j = "example_job ''vault_rebalance'' 300000 1800 3 GELATO"
  let ?a = "example_job ''vault_rebalance'' 300000 1800 3 AUTO"
  let ?s = "polled_state\<lparr>chainlink_manager := None, gelato_manager := None\<rparr>"
  have old: "map_of (jobs polled_state) (name ?j) =
     Some (example_job ''vault_rebalance'' 500000 86400 2 CHAINLINK)"
    and old': "map_of (jobs ?s) (name ?a) =
     Some (example_job ''vault_rebalance'' 500000 86400 2 CHAINLINK)"
    by (simp_all add: polled_state_eq example_job_def)
  have nm: "name ?j = ''vault_rebalance''" "provider ?j = GELATO" "provider ?a = AUTO"
    "?j\<lparr>provider := GELATO\<rparr> = ?j" "chainlink_manager ?s = None" "gelato_manager ?s = None"
    "jobs ?s = jobs polled_state"
    by (simp_all add: example_job_def)
  note t = add_job_existing_name_replaces [OF old] add_job_existing_name_replaces [OF old']
  have ok: "fst (add_job ?j polled_state) = Inr ()"
    using t(1) by (auto simp add: nm)
  have "map_of (jobs (snd (add_job ?j polled_state))) ''vault_rebalance'' = Some ?j"
    using t(1) ok by (auto simp add: nm)
  moreover have "fst (add_job ?a ?s) = Inl NoProvidersAvailable"
    using t(2) by (auto simp add: nm)
  moreover from this have "jobs (snd (add_job ?a ?s)) = jobs polled_state"
    using t(2) by (auto simp add: nm)
  ultimately show ?thesis using old ok t(1) by (auto simp add: nm)
qed

subsection \<open>Metrics updates\<close>

lemma in_update_cases:
  "(a, b) \<in> set (AList.update k v al) \<Longrightarrow> (a, b) = (k, v) \<or> (a, b) \<in> set al"
  by (induction al) (auto split: if_splits)

lemma chainlink_preserves:
  assumes step: "\<And>m t. P m \<Longrightarrow>
        P (m\<lparr>last_execution_time := Some t,
             total_executions := total_executions m + 1,
             successful_executions := successful_executions m + 1\<rparr>)"
    and inv: "\<forall>(n, m) \<in> set (metrics s). P m"
  shows "\<forall>(n, m) \<in> set (metrics (snd (update_metrics_from_chainlink st s))). P m"
  using inv
proof (induction st arbitrary: s)
  case Nil
  then show ?case by simp
next
  case (Cons a st)
  obtain job_name job_status where a: "a = (job_name, job_status)" by (cases a)
  show ?case
  proof (cases "map_of (metrics s) job_name")
    case None
    then show ?thesis using Cons a by simp
  next
    case (Some m)
    then have pm: "P m" using Cons.prems by (auto dest: map_of_SomeD)
    show ?thesis
    proof (cases "js_last_execution job_status")
      case Absent
      then show ?thesis using Cons a Some by simp
    next
      case Malformed
      then show ?thesis using Cons a Some by simp
    next
      case (Iso t)
      let ?m' = "m\<lparr>last_execution_time := Some t,
             total_executions := total_executions m + 1,
             successful_executions := successful_executions m + 1\<rparr>"
      have "\<forall>(n, x) \<in> set (metrics (s\<lparr>metrics := AList.update job_name ?m' (metrics s)\<rparr>)). P x"
        using Cons.prems step[OF pm, of t] by (auto dest!: in_update_cases)
      from Cons.IH[OF this] Cons.IH[OF Cons.prems] show ?thesis
        using a Some Iso by simp
    qed
  qed
qed

lemma gelato_loop_preserves:
  assumes counts: "\<And>m ti. P m \<Longrightarrow> P (gelato_counts ti m)"
    and stamp: "\<And>m t. P m \<Longrightarrow> P (m\<lparr>last_execution_time := Some t\<rparr>)"
    and inv: "\<forall>(n, m) \<in> set (metrics s). P m"
  shows "\<forall>(n, m) \<in> set (metrics (snd (gelato_loop ts s))). P m"
  using inv
proof (induction ts arbitrary: s)
  case Nil
  then show ?case by simp
next
  case (Cons a ts)
  obtain job_name ti where a: "a = (job_name, ti)" by (cases a)
  show ?case
  proof (cases "map_of (metrics s) job_name")
    case None
    then show ?thesis using Cons a by simp
  next
    case (Some m)
    then have pm: "P m" using Cons.prems by (auto dest: map_of_SomeD)
    let ?m1 = "gelato_counts ti m"
    let ?s1 = "s\<lparr>metrics := AList.update job_name ?m1 (metrics s)\<rparr>"
    have i1: "\<forall>(n, x) \<in> set (metrics ?s1). P x"
      using Cons.prems counts[OF pm, of ti] by (auto dest!: in_update_cases)
    show ?thesis
    proof (cases "ti_last_execution ti")
      case Absent
      then show ?thesis using Cons.IH[OF i1] a Some by (simp add: Let_def)
    next
      case Malformed
      then show ?thesis using i1 a Some by (simp add: Let_def)
    next
      case (Iso t)
      let ?s2 = "?s1\<lparr>metrics := AList.update job_name (?m1\<lparr>last_execution_time := Some t\<rparr>)
                                  (metrics ?s1)\<rparr>"
      have "\<forall>(n, x) \<in> set (metrics ?s2). P x"
        using i1 Cons.prems stamp[OF counts[OF pm, of ti], of t] by (auto dest!: in_update_cases)
      from Cons.IH[OF this] show ?thesis using a Some Iso by (simp add: Let_def)
    qed
  qed
qed

lemma gelato_preserves:
  assumes "\<And>m ti. P m \<Longrightarrow> P (gelato_counts ti m)"
    and "\<And>m t. P m \<Longrightarrow> P (m\<lparr>last_execution_time := Some t\<rparr>)"
    and "\<forall>(n, m) \<in> set (metrics s). P m"
  shows "\<forall>(n, m) \<in> set (metrics (snd (update_metrics_from_gelato summary s))). P m"
  unfolding update_metrics_from_gelato_def using assms by (rule gelato_loop_preserves)

lemma chainlink_frame:
  "jobs (snd (update_metrics_from_chainlink st s)) = jobs s
   \<and> job_assignments (snd (update_metrics_from_chainlink st s)) = job_assignments s
   \<and> chainlink_manager (snd (update_metrics_from_chainlink st s)) = chainlink_manager s
   \<and> gelato_manager (snd (update_metrics_from_chainlink st s)) = gelato_manager s"
proof (induction st arbitrary: s)
  case Nil
  show ?case by simp
next
  case (Cons a st)
  obtain job_name job_status where a: "a = (job_name, job_status)" by (cases a)
  show ?case using Cons[of s] Cons
    by (simp add: a split: option.splits iso_field.splits)
qed

lemma gelato_loop_frame:
  "jobs (snd (gelato_loop ts s)) = jobs s
   \<and> job_assignments (snd (gelato_loop ts s)) = job_assignments s
   \<and> chainlink_manager (snd (gelato_loop ts s)) = chainlink_manager s
   \<and> gelato_manager (snd (gelato_loop ts s)) = gelato_manager s"
proof (induction ts arbitrary: s)
  case Nil
  show ?case by simp
next
  case (Cons a ts)
  obtain job_name ti where a: "a = (job_name, ti)" by (cases a)
  show ?case using Cons[of s] Cons
    by (simp add: a Let_def split: option.splits iso_field.splits)
qed

lemma apply_update_frame:
  "jobs (apply_update u s) = jobs s
   \<and> job_assignments (apply_update u s) = job_assignments s
   \<and> chainlink_manager (apply_update u s) = chainlink_manager s
   \<and> gelato_manager (apply_update u s) = gelato_manager s"
  by (cases u) (simp_all add: chainlink_frame gelato_loop_frame update_metrics_from_gelato_def)

lemma apply_update_preserves:
  assumes "\<And>m t. P m \<Longrightarrow>
        P (m\<lparr>last_execution_time := Some t,
             total_executions := total_executions m + 1,
             successful_executions := successful_executions m + 1\<rparr>)"
    and "\<And>m ti. P m \<Longrightarrow> P (gelato_counts ti m)"
    and "\<And>m t. P m \<Longrightarrow> P (m\<lparr>last_execution_time := Some t\<rparr>)"
    and "\<forall>(n, m) \<in> set (metrics s). P m"
  shows "\<forall>(n, m) \<in> set (metrics (apply_update u s)). P m"
proof (cases u)
  case (ChainlinkUpdate st)
  then show ?thesis using chainlink_preserves[of P s st] assms(1,4) by simp
next
  case (GelatoUpdate sm)
  then show ?thesis using gelato_preserves[of P s sm] assms(2,3,4) by simp
qed

lemma collect_as_updates:
  "\<exists>us. collect_metrics_cycle s = run_updates us s"
proof (cases "chainlink_manager s")
  case None
  show ?thesis
  proof (cases "gelato_manager s")
    case None
    with \<open>chainlink_manager s = None\<close> have "collect_metrics_cycle s = run_updates [] s"
      by (simp add: collect_metrics_cycle_def)
    then show ?thesis by blast
  next
    case (Some gm)
    with \<open>chainlink_manager s = None\<close>
    have "collect_metrics_cycle s = run_updates [GelatoUpdate (get_task_summary gm)] s"
      by (simp add: collect_metrics_cycle_def)
    then show ?thesis by blast
  qed
next
  case (Some cm)
  let ?u = "ChainlinkUpdate (keeper_get_job_status cm)"
  obtain r s1 where r: "update_metrics_from_chainlink (keeper_get_job_status cm) s = (r, s1)"
    by (cases "update_metrics_from_chainlink (keeper_get_job_status cm) s")
  then have s1: "s1 = apply_update ?u s" by simp
  have g: "gelato_manager s1 = gelato_manager s"
    using chainlink_frame[of "keeper_get_job_status cm" s] r by simp
  show ?thesis
  proof (cases r)
    case (Inl e)
    then have "collect_metrics_cycle s = run_updates [?u] s"
      using Some r by (simp add: collect_metrics_cycle_def)
    then show ?thesis by blast
  next
    case (Inr u)
    show ?thesis
    proof (cases "gelato_manager s")
      case None
      then have "collect_metrics_cycle s = run_updates [?u] s"
        using Some r Inr g by (simp add: collect_metrics_cycle_def)
      then show ?thesis by blast
    next
      case (Some gm)
      then have "collect_metrics_cycle s = run_updates [?u, GelatoUpdate (get_task_summary gm)] s"
        using \<open>chainlink_manager s = Some cm\<close> r Inr g by (simp add: collect_metrics_cycle_def)
      then show ?thesis by blast
    qed
  qed
qed


lemma add_job_frame:
  "chainlink_manager (snd (add_job job s)) = chainlink_manager s
   \<and> gelato_manager (snd (add_job job s)) = gelato_manager s"
  by (simp add: add_job_def Let_def split: sum.splits)

lemma add_job_metrics:
  "metrics (snd (add_job job s)) = AList.update (name job) new_metrics (metrics s)"
  by (simp add: add_job_def Let_def split: sum.splits)

lemma add_job_keys:
  assumes "fst ` set (jobs s) \<subseteq> fst ` set (job_assignments s)"
  shows "fst ` set (jobs (snd (add_job job s))) \<subseteq> fst ` set (job_assignments (snd (add_job job s)))"
proof (cases "provider job = AUTO \<and> chainlink_manager s = None \<and> gelato_manager s = None")
  case True
  then show ?thesis using assms by (simp add: add_job_no_provider)
next
  case False
  from add_job_resolved [OF False] obtain p where
    "add_job job s =
               (Inr (),
                s\<lparr>metrics := AList.update (name job) new_metrics (metrics s),
                  jobs := AList.update (name job) (job\<lparr>provider := p\<rparr>) (jobs s),
                  job_assignments := AList.update (name job) p (job_assignments s)\<rparr>)"
    by blast
  then show ?thesis using assms by (auto simp add: dom_update)
qed

lemma update_existing_keys:
  "map_of al k = Some v \<Longrightarrow> fst ` set (AList.update k v' al) = fst ` set al"
  by (auto simp add: dom_update dest: map_of_SomeD intro: rev_image_eqI)

lemma deploy_chainlink_frame:
  "metrics (fst (snd (deploy_chainlink_job job s w))) = metrics s
   \<and> job_assignments (fst (snd (deploy_chainlink_job job s w))) = job_assignments s
   \<and> jobs (fst (snd (deploy_chainlink_job job s w))) = jobs s"
  by (simp add: deploy_chainlink_job_def Let_def split: option.splits prod.splits sum.splits)

lemma deploy_gelato_frame:
  "metrics (fst (snd (deploy_gelato_job job clk s w))) = metrics s
   \<and> job_assignments (fst (snd (deploy_gelato_job job clk s w))) = job_assignments s
   \<and> jobs (fst (snd (deploy_gelato_job job clk s w))) = jobs s"
  by (simp add: deploy_gelato_job_def Let_def split: option.splits prod.splits sum.splits)

lemma deploy_job_frame:
  "metrics (fst (snd (deploy_job job_name clk s w))) = metrics s
   \<and> job_assignments (fst (snd (deploy_job job_name clk s w))) = job_assignments s
   \<and> fst ` set (jobs (fst (snd (deploy_job job_name clk s w)))) = fst ` set (jobs s)"
proof (cases "map_of (jobs s) job_name")
  case None
  then show ?thesis by (simp add: deploy_job_def)
next
  case (Some job)
  show ?thesis
  proof (cases "dict_get (job_assignments s) job_name")
    case (Inl e)
    then show ?thesis using Some by (simp add: deploy_job_def)
  next
    case (Inr p)
    let ?d = "if p = CHAINLINK then deploy_chainlink_job job s w
              else if p = GELATO then deploy_gelato_job job clk s w else (Inr (), s, w)"
    obtain r s1 w1 where d: "?d = (r, s1, w1)" by (cases ?d)
    then have f: "metrics s1 = metrics s" "job_assignments s1 = job_assignments s"
      "jobs s1 = jobs s"
      using deploy_chainlink_frame[of job s w] deploy_gelato_frame[of job clk s w]
      by (auto split: if_splits)
    have "deploy_job job_name clk s w =
            (case r of Inl e \<Rightarrow> (Inl e, s1, w1)
             | Inr u \<Rightarrow> (Inr (), s1\<lparr>jobs := AList.update job_name
                   (job\<lparr>created_at := Some (job_created clk)\<rparr>) (jobs s1)\<rparr>, w1))"
      using Some Inr d by (simp add: deploy_job_def split: sum.splits)
    then show ?thesis using f Some by (cases r) (simp_all add: update_existing_keys)
  qed
qed

lemma cancel_job_frame:
  "metrics (fst (snd (cancel_job job_name s w))) = metrics s
   \<and> job_assignments (fst (snd (cancel_job job_name s w))) = job_assignments s
   \<and> fst ` set (jobs (fst (snd (cancel_job job_name s w)))) = fst ` set (jobs s)"
proof (cases "map_of (jobs s) job_name")
  case None
  then show ?thesis by (simp add: cancel_job_def)
next
  case (Some job)
  show ?thesis
  proof (cases "dict_get (job_assignments s) job_name")
    case (Inl e)
    then show ?thesis using Some by (simp add: cancel_job_def)
  next
    case (Inr p)
    let ?d = "if p = CHAINLINK then
                        (case chainlink_manager s of
                           None \<Rightarrow> (Inl AttributeError, s, w)
                         | Some cm \<Rightarrow>
                             (Inr (), s\<lparr>chainlink_manager := Some (remove_job job_name cm)\<rparr>, w))
                      else if p = GELATO then
                        (case gelato_manager s of
                           None \<Rightarrow> (Inl AttributeError, s, w)
                         | Some gm \<Rightarrow>
                             (case cancel_task job_name gm w of
                                (r, gm1, w1) \<Rightarrow> (r, s\<lparr>gelato_manager := Some gm1\<rparr>, w1)))
                      else (Inr (), s, w)"
    obtain r s1 w1 where d: "?d = (r, s1, w1)" by (cases ?d)
    then have f: "metrics s1 = metrics s" "job_assignments s1 = job_assignments s"
      "jobs s1 = jobs s"
      by (auto split: if_splits option.splits prod.splits)
    have "cancel_job job_name s w =
            (case r of Inl e \<Rightarrow> (Inl e, s1, w1)
             | Inr u \<Rightarrow> (Inr (), s1\<lparr>jobs := AList.update job_name
                   (job\<lparr>active := False\<rparr>) (jobs s1)\<rparr>, w1))"
      using Some Inr d by (simp add: cancel_job_def split: sum.splits)
    then show ?thesis using f Some by (cases r) (simp_all add: update_existing_keys)
  qed
qed

lemma gelato_counts_facts:
  "total_executions m \<le> total_executions (gelato_counts ti m)"
  "total_gas_used (gelato_counts ti m) = total_gas_used m"
  "total_fees_paid (gelato_counts ti m) = total_fees_paid m"
  "successful_executions m + failed_executions m \<le> total_executions m \<Longrightarrow>
   successful_executions (gelato_counts ti m) + failed_executions (gelato_counts ti m)
     \<le> total_executions (gelato_counts ti m)"
  by (simp_all add: gelato_counts_def Let_def)

lemma chainlink_mono:
  assumes "map_of (metrics s) n = Some m"
  shows "\<exists>m'. map_of (metrics (snd (update_metrics_from_chainlink st s))) n = Some m'
              \<and> total_executions m \<le> total_executions m'"
  using assms
proof (induction st arbitrary: s m)
  case Nil
  then show ?case by simp
next
  case (Cons a st)
  obtain job_name job_status where a: "a = (job_name, job_status)" by (cases a)
  show ?case
  proof (cases "map_of (metrics s) job_name")
    case None
    then show ?thesis using Cons a by simp
  next
    case (Some mj)
    show ?thesis
    proof (cases "js_last_execution job_status")
      case Absent
      then show ?thesis using Cons a Some by simp
    next
      case Malformed
      then show ?thesis using Cons a Some by simp
    next
      case (Iso t)
      let ?m' = "mj\<lparr>last_execution_time := Some t,
             total_executions := total_executions mj + 1,
             successful_executions := successful_executions mj + 1\<rparr>"
      let ?s' = "s\<lparr>metrics := AList.update job_name ?m' (metrics s)\<rparr>"
      have "\<exists>m1. map_of (metrics ?s') n = Some m1 \<and> total_executions m \<le> total_executions m1"
        using Cons.prems Some by (auto simp add: update_conv')
      then obtain m1 where m1: "map_of (metrics ?s') n = Some m1"
        "total_executions m \<le> total_executions m1" by blast
      from Cons.IH[OF m1(1)] obtain m2 where
        "map_of (metrics (snd (update_metrics_from_chainlink st ?s'))) n = Some m2"
        "total_executions m1 \<le> total_executions m2" by blast
      with m1(2) have "\<exists>m'. map_of (metrics (snd (update_metrics_from_chainlink st ?s'))) n = Some m'
              \<and> total_executions m \<le> total_executions m'" by (intro exI[of _ m2]) simp
      with Cons.IH[OF Cons.prems] show ?thesis using a Some Iso by simp
    qed
  qed
qed

lemma gelato_loop_mono:
  assumes "map_of (metrics s) n = Some m"
  shows "\<exists>m'. map_of (metrics (snd (gelato_loop ts s))) n = Some m'
              \<and> total_executions m \<le> total_executions m'"
  using assms
proof (induction ts arbitrary: s m)
  case Nil
  then show ?case by simp
next
  case (Cons a ts)
  obtain job_name ti where a: "a = (job_name, ti)" by (cases a)
  show ?case
  proof (cases "map_of (metrics s) job_name")
    case None
    then show ?thesis using Cons a by simp
  next
    case (Some mj)
    let ?m1 = "gelato_counts ti mj"
    let ?s1 = "s\<lparr>metrics := AList.update job_name ?m1 (metrics s)\<rparr>"
    have s1: "\<exists>x. map_of (metrics ?s1) n = Some x \<and> total_executions m \<le> total_executions x"
      using Cons.prems Some gelato_counts_facts(1)[of mj ti] by (auto simp add: update_conv')
    show ?thesis
    proof (cases "ti_last_execution ti")
      case Absent
      from s1 obtain x where x: "map_of (metrics ?s1) n = Some x"
        "total_executions m \<le> total_executions x" by blast
      from Cons.IH[OF x(1)] obtain y where
        "map_of (metrics (snd (gelato_loop ts ?s1))) n = Some y"
        "total_executions x \<le> total_executions y" by blast
      with x(2) have "\<exists>m'. map_of (metrics (snd (gelato_loop ts ?s1))) n = Some m'
              \<and> total_executions m \<le> total_executions m'" by (intro exI[of _ y]) simp
      then show ?thesis using a Some Absent by (simp add: Let_def)
    next
      case Malformed
      then show ?thesis using s1 a Some by (simp add: Let_def)
    next
      case (Iso t)
      let ?s2 = "?s1\<lparr>metrics := AList.update job_name (?m1\<lparr>last_execution_time := Some t\<rparr>)
                                  (metrics ?s1)\<rparr>"
      have "\<exists>x. map_of (metrics ?s2) n = Some x \<and> total_executions m \<le> total_executions x"
        using Cons.prems Some gelato_counts_facts(1)[of mj ti] by (auto simp add: update_conv')
      then obtain x where x: "map_of (metrics ?s2) n = Some x"
        "total_executions m \<le> total_executions x" by blast
      from Cons.IH[OF x(1)] obtain y where
        "map_of (metrics (snd (gelato_loop ts ?s2))) n = Some y"
        "total_executions x \<le> total_executions y" by blast
      with x(2) have "\<exists>m'. map_of (metrics (snd (gelato_loop ts ?s2))) n = Some m'
              \<and> total_executions m \<le> total_executions m'" by (intro exI[of _ y]) simp
      then show ?thesis using a Some Iso by (simp add: Let_def)
    qed
  qed
qed

lemma apply_update_mono:
  assumes "map_of (metrics s) n = Some m"
  shows "\<exists>m'. map_of (metrics (apply_update u s)) n = Some m'
              \<and> total_executions m \<le> total_executions m'"
  using assms chainlink_mono[of s n m] gelato_loop_mono[of s n m]
  by (cases u) (simp_all add: update_metrics_from_gelato_def)

lemma run_updates_mono:
  assumes "map_of (metrics s) n = Some m"
  shows "\<exists>m'. map_of (metrics (run_updates us s)) n = Some m'
              \<and> total_executions m \<le> total_executions m'"
  using assms
proof (induction us arbitrary: s m)
  case Nil
  then show ?case by simp
next
  case (Cons u us)
  from apply_update_mono[OF Cons.prems, of u] obtain x where
    x: "map_of (metrics (apply_update u s)) n = Some x"
    "total_executions m \<le> total_executions x" by blast
  from Cons.IH[OF x(1)] obtain y where
    "map_of (metrics (run_updates us (apply_update u s))) n = Some y"
    "total_executions x \<le> total_executions y" by blast
  with x(2) show ?case by (intro exI[of _ y]) simp
qed

text \<open>
  Claim C4. For every job with a metrics entry and every sequence of metrics-update steps
  (the keeper status update or the relay summary update, with whatever status the provider
  reports, also one that makes the update raise part-way), the job keeps a metrics entry
  and its \<^verbatim>\<open>total_executions\<close> after the steps is at least what it was before: this holds
  for a single step, for a run of steps and for one collection cycle.
\<close>

theorem total_executions_never_decreases:
  assumes "map_of (metrics s) n = Some m"
  shows "(\<exists>m'. map_of (metrics (apply_update u s)) n = Some m'
              \<and> total_executions m \<le> total_executions m')
       \<and> (\<exists>m'. map_of (metrics (run_updates us s)) n = Some m'
              \<and> total_executions m \<le> total_executions m')
       \<and> (\<exists>m'. map_of (metrics (collect_metrics_cycle s)) n = Some m'
              \<and> total_executions m \<le> total_executions m')"
proof -
  obtain vs where "collect_metrics_cycle s = run_updates vs s"
    using collect_as_updates by blast
  then show ?thesis
    using apply_update_mono[OF assms, of u] run_updates_mono[OF assms, of us]
      run_updates_mono[OF assms, of vs] by simp
qed

lemma polled_metrics:
  "map_of (metrics polled_state) ''vault_rebalance'' =
     Some (new_metrics\<lparr>last_execution_time := Some 5, total_executions := 1,
                        successful_executions := 1\<rparr>)"
  by (simp add: polled_state_eq)

lemma example_run:
  "map_of (metrics (run_updates
        [GelatoUpdate (example_summary ''vault_rebalance'' 4 (3 / 4)),
         ChainlinkUpdate [(''vault_rebalance'', example_status 7)],
         GelatoUpdate (example_summary ''vault_rebalance'' 2 1)] polled_state))
     ''vault_rebalance'' =
   Some (new_metrics\<lparr>last_execution_time := Some 9, total_executions := 4,
                      successful_executions := 3, failed_executions := 1\<rparr>)"
  by (simp add: polled_state_eq update_metrics_from_gelato_def example_summary_def
      example_status_def gelato_counts_def py_int_def new_metrics_def Let_def)

theorem total_executions_never_decreases_witness:
  "map_of (metrics polled_state) ''vault_rebalance'' =
     Some (new_metrics\<lparr>last_execution_time := Some 5, total_executions := 1,
                        successful_executions := 1\<rparr>)
   \<and> (\<exists>m'. map_of (metrics (run_updates
        [GelatoUpdate (example_summary ''vault_rebalance'' 4 (3 / 4)),
         ChainlinkUpdate [(''vault_rebalance'', example_status 7)],
         GelatoUpdate (example_summary ''vault_rebalance'' 2 1)] polled_state))
          ''vault_rebalance'' = Some m' \<and> 1 \<le> total_executions m')"
  using total_executions_never_decreases
          [OF polled_metrics,
           of "GelatoUpdate (example_summary ''vault_rebalance'' 4 (3 / 4))"
              "[GelatoUpdate (example_summary ''vault_rebalance'' 4 (3 / 4)),
                ChainlinkUpdate [(''vault_rebalance'', example_status 7)],
                GelatoUpdate (example_summary ''vault_rebalance'' 2 1)]"]
  by (simp add: polled_metrics new_metrics_def)

subsection \<open>Invariants of the reachable states\<close>

lemma reachable_invariant:
  assumes "reachable s"
  shows "(\<forall>(n, m) \<in> set (metrics s).
            successful_executions m + failed_executions m \<le> total_executions m
            \<and> total_gas_used m = 0 \<and> total_fees_paid m = 0)
         \<and> fst ` set (jobs s) \<subseteq> fst ` set (job_assignments s)"
  using assms
proof (induction rule: reachable.induct)
  case (initial chainlink_ok gelato_ok)
  show ?case by (simp add: new_orchestrator_def)
next
  case (added s job)
  have "\<forall>(n, m) \<in> set (AList.update (name job) new_metrics (metrics s)).
            successful_executions m + failed_executions m \<le> total_executions m
            \<and> total_gas_used m = 0 \<and> total_fees_paid m = 0"
    using added.IH by (auto dest!: in_update_cases simp add: new_metrics_def)
  then show ?case using added.IH add_job_keys[of s job] by (simp add: add_job_metrics)
next
  case (deployed s job_name clk w)
  then show ?case using deploy_job_frame[of job_name clk s w] by simp
next
  case (cancelled s job_name w)
  then show ?case using cancel_job_frame[of job_name s w] by simp
next
  case (updated s u)
  let ?P = "\<lambda>m. successful_executions m + failed_executions m \<le> total_executions m
            \<and> total_gas_used m = 0 \<and> total_fees_paid m = 0"
  have "\<forall>(n, m) \<in> set (metrics (apply_update u s)). ?P m"
  proof (rule apply_update_preserves[where P = ?P])
    show "\<forall>(n, m) \<in> set (metrics s). ?P m" using updated.IH by simp
  qed (simp_all add: gelato_counts_facts)
  then show ?case using updated.IH by (simp add: apply_update_frame)
next
  case (collected s)
  let ?P = "\<lambda>m. successful_executions m + failed_executions m \<le> total_executions m
            \<and> total_gas_used m = 0 \<and> total_fees_paid m = 0"
  obtain us where us: "collect_metrics_cycle s = run_updates us s"
    using collect_as_updates by blast
  have "(\<forall>(n, m) \<in> set (metrics t). ?P m)
         \<and> fst ` set (jobs t) \<subseteq> fst ` set (job_assignments t) \<Longrightarrow>
        (\<forall>(n, m) \<in> set (metrics (run_updates us t)). ?P m)
         \<and> fst ` set (jobs (run_updates us t)) \<subseteq> fst ` set (job_assignments (run_updates us t))"
    for t
  proof (induction us arbitrary: t)
    case Nil
    then show ?case by simp
  next
    case (Cons u us)
    have "\<forall>(n, m) \<in> set (metrics (apply_update u t)). ?P m"
    proof (rule apply_update_preserves[where P = ?P])
      show "\<forall>(n, m) \<in> set (metrics t). ?P m" using Cons.prems by simp
    qed (simp_all add: gelato_counts_facts)
    then have "(\<forall>(n, m) \<in> set (metrics (apply_update u t)). ?P m)
         \<and> fst ` set (jobs (apply_update u t)) \<subseteq> fst ` set (job_assignments (apply_update u t))"
      using Cons.prems by (simp add: apply_update_frame)
    from Cons.IH[OF this] show ?case by simp
  qed
  from this[OF collected.IH] show ?case by (simp add: us)
next
  case (keeper_step s cm cm')
  then show ?case by simp
next
  case (relay_step s gm gm')
  then show ?case by simp
qed

text \<open>
  Claim C7. In every reachable state (metrics zero-initialised by \<^verbatim>\<open>add_job\<close>, then
  changed only by the keeper and relay metrics updates), every metrics entry satisfies
  \<^verbatim>\<open>successful_executions + failed_executions <= total_executions\<close>.
\<close>

theorem counters_within_total:
  assumes "reachable s" and "(n, m) \<in> set (metrics s)"
  shows "successful_executions m + failed_executions m \<le> total_executions m"
  using reachable_invariant[OF assms(1)] assms(2) by auto

lemma reachable_polled_state: "reachable polled_state"
  unfolding polled_state_def by (intro reachable.updated reachable.added reachable.initial)

lemma example_relay_poll:
  "metrics (apply_update (GelatoUpdate (example_summary ''vault_rebalance'' 4 (3 / 4))) polled_state) =
     [(''vault_rebalance'',
       new_metrics\<lparr>last_execution_time := Some 9, total_executions := 4,
                    successful_executions := 3, failed_executions := 1\<rparr>)]"
  by (simp add: polled_state_eq update_metrics_from_gelato_def example_summary_def
      gelato_counts_def py_int_def new_metrics_def Let_def)

theorem counters_within_total_witness:
  "reachable (apply_update (GelatoUpdate (example_summary ''vault_rebalance'' 4 (3 / 4))) polled_state)
   \<and> (''vault_rebalance'',
       new_metrics\<lparr>last_execution_time := Some 9, total_executions := 4,
                    successful_executions := 3, failed_executions := 1\<rparr>)
       \<in> set (metrics (apply_update (GelatoUpdate (example_summary ''vault_rebalance'' 4 (3 / 4)))
                         polled_state))
   \<and> successful_executions
         (new_metrics\<lparr>last_execution_time := Some 9, total_executions := 4,
                      successful_executions := 3, failed_executions := 1\<rparr>)
       + failed_executions
           (new_metrics\<lparr>last_execution_time := Some 9, total_executions := 4,
                        successful_executions := 3, failed_executions := 1\<rparr>)
       \<le> total_executions
           (new_metrics\<lparr>last_execution_time := Some 9, total_executions := 4,
                        successful_executions := 3, failed_executions := 1\<rparr>)"
proof -
  let ?s = "apply_update (GelatoUpdate (example_summary ''vault_rebalance'' 4 (3 / 4))) polled_state"
  let ?m = "new_metrics\<lparr>last_execution_time := Some 9, total_executions := 4,
                    successful_executions := 3, failed_executions := 1\<rparr>"
  have r: "reachable ?s" by (intro reachable.updated reachable_polled_state)
  have i: "(''vault_rebalance'', ?m) \<in> set (metrics ?s)"
    unfolding example_relay_poll by simp
  from counters_within_total[OF r i] show ?thesis using r i by blast
qed

subsection \<open>Status and performance reports\<close>

lemma guarded_ratio_eq:
  "guarded_ratio a b = Inr (if b > 0 then of_int a / of_int b else 0)"
  by (simp add: guarded_ratio_def py_truediv_def)

lemma metrics_entry_eq:
  "metrics_entry m =
     Inr \<lparr>mr_total_executions = total_executions m,
          mr_successful_executions = successful_executions m,
          mr_failed_executions = failed_executions m,
          mr_success_rate =
            (if total_executions m > 0
             then of_int (successful_executions m) / of_int (total_executions m) else 0),
          mr_total_gas_used = total_gas_used m,
          mr_total_fees_paid = total_fees_paid m,
          mr_last_execution = isoformat_opt (last_execution_time m)\<rparr>"
  by (simp add: metrics_entry_def guarded_ratio_eq)

lemma job_details_error:
  "job_details s js acc = Inl e \<Longrightarrow> e = KeyError"
proof (induction js arbitrary: acc)
  case Nil
  then show ?case by simp
next
  case (Cons a js)
  obtain job_name job where a: "a = (job_name, job)" by (cases a)
  show ?case
  proof (cases "map_of (job_assignments s) job_name")
    case None
    then show ?thesis using Cons.prems a by (simp add: dict_get_def Let_def)
  next
    case (Some p)
    then show ?thesis using Cons a
      by (simp add: dict_get_def Let_def metrics_entry_eq)
  qed
qed

lemma job_details_total:
  assumes "fst ` set js \<subseteq> fst ` set (job_assignments s)"
  shows "\<exists>r. job_details s js acc = Inr r"
  using assms
proof (induction js arbitrary: acc)
  case Nil
  then show ?case by simp
next
  case (Cons a js)
  obtain job_name job where a: "a = (job_name, job)" by (cases a)
  then have "job_name \<in> fst ` set (job_assignments s)" using Cons.prems by simp
  then obtain p where p: "map_of (job_assignments s) job_name = Some p"
    by (metis domD dom_map_of_conv_image_fst)
  have "fst ` set js \<subseteq> fst ` set (job_assignments s)" using Cons.prems by simp
  from Cons.IH[OF this] show ?case using a p
    by (simp add: dict_get_def Let_def metrics_entry_eq)
qed

lemma job_details_entries:
  assumes "job_details s js acc = Inr r" and "(n, jr) \<in> set r"
  shows "(n, jr) \<in> set acc
       \<or> (\<exists>m. (m = new_metrics \<or> m \<in> snd ` set (metrics s))
              \<and> metrics_entry m = Inr (jr_metrics jr))"
  using assms
proof (induction js arbitrary: acc)
  case Nil
  then show ?case by simp
next
  case (Cons a js)
  obtain job_name job where a: "a = (job_name, job)" by (cases a)
  let ?m = "case map_of (metrics s) job_name of None \<Rightarrow> new_metrics | Some m \<Rightarrow> m"
  have m: "?m = new_metrics \<or> ?m \<in> snd ` set (metrics s)"
    by (auto split: option.splits dest!: map_of_SomeD intro: rev_image_eqI)
  show ?case
  proof (cases "map_of (job_assignments s) job_name")
    case None
    then show ?thesis using Cons.prems a by (simp add: dict_get_def Let_def)
  next
    case (Some p)
    obtain mr where mr: "metrics_entry ?m = Inr mr" by (simp add: metrics_entry_eq)
    let ?jr = "\<lparr>jr_active = active job,
                     jr_provider = provider_value p,
                     jr_target_contract = target_contract job,
                     jr_function_name = function_name job,
                     jr_frequency = frequency job,
                     jr_priority = priority job,
                     jr_created_at = isoformat_opt (created_at job),
                     jr_metrics = mr\<rparr>"
    have "job_details s js (AList.update job_name ?jr acc) = Inr r"
      using Cons.prems(1) a Some mr by (simp add: dict_get_def Let_def)
    from Cons.IH[OF this Cons.prems(2)]
    consider "(n, jr) \<in> set (AList.update job_name ?jr acc)"
      | "\<exists>m. (m = new_metrics \<or> m \<in> snd ` set (metrics s))
              \<and> metrics_entry m = Inr (jr_metrics jr)"
      by blast
    then show ?thesis
    proof cases
      case 1
      then have "(n, jr) = (job_name, ?jr) \<or> (n, jr) \<in> set acc" by (rule in_update_cases)
      then show ?thesis
      proof
        assume "(n, jr) = (job_name, ?jr)"
        then have "jr_metrics jr = mr" by simp
        with m mr have "(?m = new_metrics \<or> ?m \<in> snd ` set (metrics s))
              \<and> metrics_entry ?m = Inr (jr_metrics jr)" by simp
        then show ?thesis by blast
      next
        assume "(n, jr) \<in> set acc"
        then show ?thesis by simp
      qed
    next
      case 2
      then show ?thesis by simp
    qed
  qed
qed

lemma provider_performance_loop_total:
  "\<exists>r. provider_performance_loop s ps acc = Inr r"
proof (induction ps arbitrary: acc)
  case Nil
  show ?case by simp
next
  case (Cons p ps)
  show ?case
  proof (cases "map_of provider_costs p")
    case None
    then show ?thesis using Cons by simp
  next
    case (Some c)
    then show ?thesis using Cons by (simp add: dict_get_def)
  qed
qed

lemma job_metrics_loop_total:
  "\<exists>r. job_metrics_loop ms acc = Inr r"
proof (induction ms arbitrary: acc)
  case Nil
  show ?case by simp
next
  case (Cons a ms)
  obtain job_name m where a: "a = (job_name, m)" by (cases a)
  show ?case using Cons by (simp add: a guarded_ratio_eq)
qed

lemma job_metrics_loop_entries:
  assumes "job_metrics_loop ms acc = Inr r" and "(n, jm) \<in> set r"
  shows "(n, jm) \<in> set acc
       \<or> (\<exists>m \<in> snd ` set ms.
             jm = \<lparr>jm_executions = total_executions m,
                   jm_success_rate =
                     (if total_executions m > 0
                      then of_int (successful_executions m) / of_int (total_executions m)
                      else 0),
                   jm_gas_efficiency =
                     (if total_executions m > 0
                      then of_int (total_gas_used m) / of_int (total_executions m)
                      else 0)\<rparr>)"
  using assms
proof (induction ms arbitrary: acc)
  case Nil
  then show ?case by simp
next
  case (Cons a ms)
  obtain job_name m where a: "a = (job_name, m)" by (cases a)
  let ?jm = "\<lparr>jm_executions = total_executions m,
                   jm_success_rate =
                     (if total_executions m > 0
                      then of_int (successful_executions m) / of_int (total_executions m)
                      else 0),
                   jm_gas_efficiency =
                     (if total_executions m > 0
                      then of_int (total_gas_used m) / of_int (total_executions m)
                      else 0)\<rparr>"
  have "job_metrics_loop ms (AList.update job_name ?jm acc) = Inr r"
    using Cons.prems(1) a by (simp add: guarded_ratio_eq)
  from Cons.IH[OF this Cons.prems(2)]
  consider "(n, jm) \<in> set (AList.update job_name ?jm acc)"
    | m' where "m' \<in> snd ` set ms"
        "jm = \<lparr>jm_executions = total_executions m',
                   jm_success_rate =
                     (if total_executions m' > 0
                      then of_int (successful_executions m') / of_int (total_executions m')
                      else 0),
                   jm_gas_efficiency =
                     (if total_executions m' > 0
                      then of_int (total_gas_used m') / of_int (total_executions m')
                      else 0)\<rparr>"
    by blast
  then show ?case
  proof cases
    case 1
    then have "(n, jm) = (job_name, ?jm) \<or> (n, jm) \<in> set acc" by (rule in_update_cases)
    then show ?thesis using a by auto
  next
    case 2
    then show ?thesis by (auto simp add: a)
  qed
qed

lemma get_performance_report_eq:
  "\<exists>pp jm. provider_performance_loop s [CHAINLINK, GELATO] [] = Inr pp
        \<and> job_metrics_loop (metrics s) [] = Inr jm
        \<and> get_performance_report s =
            Inr \<lparr>pr_overall_metrics =
                   \<lparr>om_total_executions = sum_list (map (\<lambda>(n, m). total_executions m) (metrics s)),
                    om_overall_success_rate =
                      (if sum_list (map (\<lambda>(n, m). total_executions m) (metrics s)) > 0
                       then of_int (sum_list (map (\<lambda>(n, m). successful_executions m) (metrics s)))
                            / of_int (sum_list (map (\<lambda>(n, m). total_executions m) (metrics s)))
                       else 0),
                    om_total_gas_used = sum_list (map (\<lambda>(n, m). total_gas_used m) (metrics s)),
                    om_total_fees_paid = sum_list (map (\<lambda>(n, m). total_fees_paid m) (metrics s)),
                    om_average_gas_per_execution =
                      (if sum_list (map (\<lambda>(n, m). total_executions m) (metrics s)) > 0
                       then of_int (sum_list (map (\<lambda>(n, m). total_gas_used m) (metrics s)))
                            / of_int (sum_list (map (\<lambda>(n, m). total_executions m) (metrics s)))
                       else 0)\<rparr>,
                 pr_provider_performance = pp,
                 pr_job_metrics = jm\<rparr>"
proof -
  obtain pp where pp: "provider_performance_loop s [CHAINLINK, GELATO] [] = Inr pp"
    using provider_performance_loop_total by blast
  obtain jm where jm: "job_metrics_loop (metrics s) [] = Inr jm"
    using job_metrics_loop_total by blast
  show ?thesis
    by (intro exI[of _ pp] exI[of _ jm])
      (simp add: get_performance_report_def guarded_ratio_eq Let_def pp jm
        del: provider_performance_loop.simps)
qed

lemma get_job_status_error: "get_job_status s = Inl e \<Longrightarrow> e = KeyError"
  using job_details_error[of s "jobs s" "[]" e]
  by (simp add: get_job_status_def split: sum.splits)

lemma get_job_status_total:
  assumes "fst ` set (jobs s) \<subseteq> fst ` set (job_assignments s)"
  shows "\<exists>r. get_job_status s = Inr r"
proof -
  from job_details_total[OF assms, of "[]"] obtain js where "job_details s (jobs s) [] = Inr js"
    by blast
  then show ?thesis by (simp add: get_job_status_def)
qed

lemma get_job_status_entries:
  assumes "get_job_status s = Inr r" and "(n, jr) \<in> set (st_jobs r)"
  shows "\<exists>m. (m = new_metrics \<or> m \<in> snd ` set (metrics s))
              \<and> metrics_entry m = Inr (jr_metrics jr)"
proof -
  from assms(1) obtain js where js: "job_details s (jobs s) [] = Inr js" "st_jobs r = js"
    by (auto simp add: get_job_status_def split: sum.splits)
  with assms(2) have "(n, jr) \<in> set js" by simp
  from job_details_entries[OF js(1) this] show ?thesis by simp
qed

lemma sum_list_zero:
  "\<forall>(n, m) \<in> set ms. f m = (0::int) \<Longrightarrow> sum_list (map (\<lambda>(n, m). f m) ms) = 0"
  by (induction ms) auto

text \<open>
  Claim C10. \<^verbatim>\<open>get_job_status\<close> and \<^verbatim>\<open>get_performance_report\<close> never divide by
  zero: every ratio goes through the guard \<^verbatim>\<open>x / total if total > 0 else 0\<close>. In every
  state \<^verbatim>\<open>get_performance_report\<close> returns a report and \<^verbatim>\<open>get_job_status\<close> does not
  raise \<^verbatim>\<open>ZeroDivisionError\<close>; in every reachable state \<^verbatim>\<open>get_job_status\<close> returns a
  report. Where a total is zero (not positive), the success rate, the average gas per
  execution and the gas efficiency computed from it are reported as 0.
\<close>

theorem reports_guard_every_ratio:
  "(\<exists>p. get_performance_report s = Inr p)
   \<and> get_job_status s \<noteq> Inl ZeroDivisionError
   \<and> (reachable s \<longrightarrow> (\<exists>r. get_job_status s = Inr r))
   \<and> (\<forall>r n jr. get_job_status s = Inr r \<longrightarrow> (n, jr) \<in> set (st_jobs r) \<longrightarrow>
          mr_total_executions (jr_metrics jr) \<le> 0 \<longrightarrow> mr_success_rate (jr_metrics jr) = 0)
   \<and> (\<forall>p. get_performance_report s = Inr p \<longrightarrow>
          om_total_executions (pr_overall_metrics p) \<le> 0 \<longrightarrow>
          om_overall_success_rate (pr_overall_metrics p) = 0
          \<and> om_average_gas_per_execution (pr_overall_metrics p) = 0)
   \<and> (\<forall>p n jm. get_performance_report s = Inr p \<longrightarrow> (n, jm) \<in> set (pr_job_metrics p) \<longrightarrow>
          jm_executions jm \<le> 0 \<longrightarrow> jm_success_rate jm = 0 \<and> jm_gas_efficiency jm = 0)"
proof -
  obtain pp jm where pp: "provider_performance_loop s [CHAINLINK, GELATO] [] = Inr pp"
    and jm: "job_metrics_loop (metrics s) [] = Inr jm"
    and rep: "get_performance_report s =
            Inr \<lparr>pr_overall_metrics =
                   \<lparr>om_total_executions = sum_list (map (\<lambda>(n, m). total_executions m) (metrics s)),
                    om_overall_success_rate =
                      (if sum_list (map (\<lambda>(n, m). total_executions m) (metrics s)) > 0
                       then of_int (sum_list (map (\<lambda>(n, m). successful_executions m) (metrics s)))
                            / of_int (sum_list (map (\<lambda>(n, m). total_executions m) (metrics s)))
                       else 0),
                    om_total_gas_used = sum_list (map (\<lambda>(n, m). total_gas_used m) (metrics s)),
                    om_total_fees_paid = sum_list (map (\<lambda>(n, m). total_fees_paid m) (metrics s)),
                    om_average_gas_per_execution =
                      (if sum_list (map (\<lambda>(n, m). total_executions m) (metrics s)) > 0
                       then of_int (sum_list (map (\<lambda>(n, m). total_gas_used m) (metrics s)))
                            / of_int (sum_list (map (\<lambda>(n, m). total_executions m) (metrics s)))
                       else 0)\<rparr>,
                 pr_provider_performance = pp,
                 pr_job_metrics = jm\<rparr>"
    using get_performance_report_eq[of s] by blast
  have a: "\<exists>p. get_performance_report s = Inr p" using rep by blast
  have b: "get_job_status s \<noteq> Inl ZeroDivisionError"
    using get_job_status_error[of s ZeroDivisionError] by auto
  have c: "reachable s \<longrightarrow> (\<exists>r. get_job_status s = Inr r)"
    using reachable_invariant[of s] get_job_status_total[of s] by blast
  have d: "mr_success_rate (jr_metrics jr) = 0"
    if "get_job_status s = Inr r" "(n, jr) \<in> set (st_jobs r)"
      "mr_total_executions (jr_metrics jr) \<le> 0" for r n jr
  proof -
    from get_job_status_entries[OF that(1,2)] obtain m where
      "metrics_entry m = Inr (jr_metrics jr)" by blast
    then have "Inr (jr_metrics jr) = metrics_entry m" by simp
    then have "mr_total_executions (jr_metrics jr) = total_executions m"
      "mr_success_rate (jr_metrics jr) =
         (if total_executions m > 0
          then of_int (successful_executions m) / of_int (total_executions m) else 0)"
      unfolding metrics_entry_eq by simp_all
    then show ?thesis using that(3) by simp
  qed
  have e: "om_overall_success_rate (pr_overall_metrics p) = 0
          \<and> om_average_gas_per_execution (pr_overall_metrics p) = 0"
    if "get_performance_report s = Inr p" "om_total_executions (pr_overall_metrics p) \<le> 0" for p
    using that rep by auto
  have f: "jm_success_rate x = 0 \<and> jm_gas_efficiency x = 0"
    if "get_performance_report s = Inr p" "(n, x) \<in> set (pr_job_metrics p)"
      "jm_executions x \<le> 0" for p n x
  proof -
    from that(1,2) rep have "(n, x) \<in> set jm" by auto
    from job_metrics_loop_entries[OF jm this] show ?thesis using that(3) by auto
  qed
  show ?thesis using a b c d e f by blast
qed


lemma added_state_eq:
  "added_state =
     \<lparr>chainlink_manager = Some \<lparr>keeper_jobs = []\<rparr>,
      gelato_manager = Some \<lparr>tasks = [], executions = []\<rparr>,
      jobs = [(''vault_rebalance'', example_job ''vault_rebalance'' 500000 86400 2 CHAINLINK)],
      job_assignments = [(''vault_rebalance'', CHAINLINK)],
      metrics = [(''vault_rebalance'', new_metrics)]\<rparr>"
  by (simp add: added_state_def add_job_def select_cases new_orchestrator_def Let_def
      spec_keeper_score_def spec_relay_score_def spec_score_def example_job_def)

lemma reachable_added_state: "reachable added_state"
  unfolding added_state_def by (intro reachable.added reachable.initial)

lemma added_state_status:
  "get_job_status added_state =
     Inr \<lparr>st_total_jobs = 1, st_active_jobs = 1,
          st_provider_distribution = [(''chainlink'', 1)],
          st_jobs =
            [(''vault_rebalance'',
              \<lparr>jr_active = True, jr_provider = ''chainlink'', jr_target_contract = ''0x...'',
               jr_function_name = ''rebalance'', jr_frequency = 86400, jr_priority = 2,
               jr_created_at = Absent,
               jr_metrics =
                 \<lparr>mr_total_executions = 0, mr_successful_executions = 0,
                  mr_failed_executions = 0, mr_success_rate = 0, mr_total_gas_used = 0,
                  mr_total_fees_paid = 0, mr_last_execution = Absent\<rparr>\<rparr>)]\<rparr>"
  by (simp add: added_state_eq get_job_status_def dict_get_def metrics_entry_eq Let_def
      count_true_def example_job_def new_metrics_def)

theorem reports_guard_every_ratio_witness:
  "reachable added_state
   \<and> (\<exists>r jr. get_job_status added_state = Inr r
         \<and> (''vault_rebalance'', jr) \<in> set (st_jobs r)
         \<and> mr_total_executions (jr_metrics jr) = 0
         \<and> mr_success_rate (jr_metrics jr) = 0)
   \<and> (\<exists>p. get_performance_report added_state = Inr p
         \<and> om_total_executions (pr_overall_metrics p) = 0
         \<and> om_overall_success_rate (pr_overall_metrics p) = 0
         \<and> om_average_gas_per_execution (pr_overall_metrics p) = 0)"
proof -
  let ?jr = "\<lparr>jr_active = True, jr_provider = ''chainlink'', jr_target_contract = ''0x...'',
               jr_function_name = ''rebalance'', jr_frequency = 86400, jr_priority = 2,
               jr_created_at = Absent,
               jr_metrics =
                 \<lparr>mr_total_executions = 0, mr_successful_executions = 0,
                  mr_failed_executions = 0, mr_success_rate = 0, mr_total_gas_used = 0,
                  mr_total_fees_paid = 0, mr_last_execution = Absent\<rparr>\<rparr>"
  note t = reports_guard_every_ratio [of added_state]
  from t reachable_added_state obtain r where r: "get_job_status added_state = Inr r" by blast
  then have mem: "(''vault_rebalance'', ?jr) \<in> set (st_jobs r)"
    using added_state_status by auto
  have tot: "mr_total_executions (jr_metrics ?jr) = 0" by simp
  then have "mr_total_executions (jr_metrics ?jr) \<le> 0" by simp
  with t r mem have rate: "mr_success_rate (jr_metrics ?jr) = 0" by blast
  from t obtain p where p: "get_performance_report added_state = Inr p" by blast
  obtain pp jm where "get_performance_report added_state =
      Inr \<lparr>pr_overall_metrics =
             \<lparr>om_total_executions = sum_list (map (\<lambda>(n, m). total_executions m) (metrics added_state)),
              om_overall_success_rate =
                (if sum_list (map (\<lambda>(n, m). total_executions m) (metrics added_state)) > 0
                 then of_int (sum_list (map (\<lambda>(n, m). successful_executions m) (metrics added_state)))
                      / of_int (sum_list (map (\<lambda>(n, m). total_executions m) (metrics added_state)))
                 else 0),
              om_total_gas_used = sum_list (map (\<lambda>(n, m). total_gas_used m) (metrics added_state)),
              om_total_fees_paid = sum_list (map (\<lambda>(n, m). total_fees_paid m) (metrics added_state)),
              om_average_gas_per_execution =
                (if sum_list (map (\<lambda>(n, m). total_executions m) (metrics added_state)) > 0
                 then of_int (sum_list (map (\<lambda>(n, m). total_gas_used m) (metrics added_state)))
                      / of_int (sum_list (map (\<lambda>(n, m). total_executions m) (metrics added_state)))
                 else 0)\<rparr>,
           pr_provider_performance = pp,
           pr_job_metrics = jm\<rparr>"
    using get_performance_report_eq[of added_state] by blast
  with p have z: "om_total_executions (pr_overall_metrics p) = 0"
    by (auto simp add: added_state_eq new_metrics_def)
  then have "om_total_executions (pr_overall_metrics p) \<le> 0" by simp
  with t p have "om_overall_success_rate (pr_overall_metrics p) = 0
          \<and> om_average_gas_per_execution (pr_overall_metrics p) = 0" by blast
  with p z have "\<exists>p. get_performance_report added_state = Inr p
         \<and> om_total_executions (pr_overall_metrics p) = 0
         \<and> om_overall_success_rate (pr_overall_metrics p) = 0
         \<and> om_average_gas_per_execution (pr_overall_metrics p) = 0" by blast
  moreover have "\<exists>r jr. get_job_status added_state = Inr r
         \<and> (''vault_rebalance'', jr) \<in> set (st_jobs r)
         \<and> mr_total_executions (jr_metrics jr) = 0
         \<and> mr_success_rate (jr_metrics jr) = 0"
    using r mem tot rate by blast
  ultimately show ?thesis using reachable_added_state by blast
qed

text \<open>
  Claim C9. In every reachable state the counters \<^verbatim>\<open>total_gas_used\<close> and
  \<^verbatim>\<open>total_fees_paid\<close> of every metrics entry are 0, since no update writes them; so
  \<^verbatim>\<open>get_job_status\<close> reports zero gas and zero fees for every job, and
  \<^verbatim>\<open>get_performance_report\<close> reports zero total gas, zero total fees, zero average gas
  per execution and zero gas efficiency for every job.
\<close>

theorem gas_and_fees_stay_zero:
  assumes "reachable s"
  shows "(\<forall>(n, m) \<in> set (metrics s). total_gas_used m = 0 \<and> total_fees_paid m = 0)
       \<and> (\<exists>r. get_job_status s = Inr r
             \<and> (\<forall>(n, jr) \<in> set (st_jobs r).
                    mr_total_gas_used (jr_metrics jr) = 0
                    \<and> mr_total_fees_paid (jr_metrics jr) = 0))
       \<and> (\<exists>p. get_performance_report s = Inr p
             \<and> om_total_gas_used (pr_overall_metrics p) = 0
             \<and> om_total_fees_paid (pr_overall_metrics p) = 0
             \<and> om_average_gas_per_execution (pr_overall_metrics p) = 0
             \<and> (\<forall>(n, jm) \<in> set (pr_job_metrics p). jm_gas_efficiency jm = 0))"
proof -
  have inv: "\<forall>(n, m) \<in> set (metrics s). total_gas_used m = 0 \<and> total_fees_paid m = 0"
    and keys: "fst ` set (jobs s) \<subseteq> fst ` set (job_assignments s)"
    using reachable_invariant[OF assms] by auto
  from get_job_status_total[OF keys] obtain r where r: "get_job_status s = Inr r" by blast
  have jr: "mr_total_gas_used (jr_metrics jr) = 0 \<and> mr_total_fees_paid (jr_metrics jr) = 0"
    if "(n, jr) \<in> set (st_jobs r)" for n jr
  proof -
    from get_job_status_entries[OF r that] obtain m where
      m: "m = new_metrics \<or> m \<in> snd ` set (metrics s)"
      and e: "metrics_entry m = Inr (jr_metrics jr)" by blast
    from m inv have z: "total_gas_used m = 0 \<and> total_fees_paid m = 0"
      by (auto simp add: new_metrics_def)
    from e have "Inr (jr_metrics jr) = metrics_entry m" by simp
    then have "mr_total_gas_used (jr_metrics jr) = total_gas_used m"
      "mr_total_fees_paid (jr_metrics jr) = total_fees_paid m"
      unfolding metrics_entry_eq by simp_all
    with z show ?thesis by simp
  qed
  have gas: "sum_list (map (\<lambda>(n, m). total_gas_used m) (metrics s)) = 0"
    using inv by (intro sum_list_zero) auto
  have fees: "sum_list (map (\<lambda>(n, m). total_fees_paid m) (metrics s)) = 0"
    using inv by (intro sum_list_zero) auto
  obtain pp jm where jm: "job_metrics_loop (metrics s) [] = Inr jm"
    and rep: "get_performance_report s =
            Inr \<lparr>pr_overall_metrics =
                   \<lparr>om_total_executions = sum_list (map (\<lambda>(n, m). total_executions m) (metrics s)),
                    om_overall_success_rate =
                      (if sum_list (map (\<lambda>(n, m). total_executions m) (metrics s)) > 0
                       then of_int (sum_list (map (\<lambda>(n, m). successful_executions m) (metrics s)))
                            / of_int (sum_list (map (\<lambda>(n, m). total_executions m) (metrics s)))
                       else 0),
                    om_total_gas_used = sum_list (map (\<lambda>(n, m). total_gas_used m) (metrics s)),
                    om_total_fees_paid = sum_list (map (\<lambda>(n, m). total_fees_paid m) (metrics s)),
                    om_average_gas_per_execution =
                      (if sum_list (map (\<lambda>(n, m). total_executions m) (metrics s)) > 0
                       then of_int (sum_list (map (\<lambda>(n, m). total_gas_used m) (metrics s)))
                            / of_int (sum_list (map (\<lambda>(n, m). total_executions m) (metrics s)))
                       else 0)\<rparr>,
                 pr_provider_performance = pp,
                 pr_job_metrics = jm\<rparr>"
    using get_performance_report_eq[of s] by blast
  have eff: "jm_gas_efficiency x = 0" if "(n, x) \<in> set jm" for n x
  proof -
    from job_metrics_loop_entries[OF jm that] obtain m where
      m: "m \<in> snd ` set (metrics s)"
      and x: "x = \<lparr>jm_executions = total_executions m,
                   jm_success_rate =
                     (if total_executions m > 0
                      then of_int (successful_executions m) / of_int (total_executions m)
                      else 0),
                   jm_gas_efficiency =
                     (if total_executions m > 0
                      then of_int (total_gas_used m) / of_int (total_executions m)
                      else 0)\<rparr>"
      by auto
    from m inv have "total_gas_used m = 0" by auto
    then show ?thesis by (simp add: x)
  qed
  have "\<exists>p. get_performance_report s = Inr p
             \<and> om_total_gas_used (pr_overall_metrics p) = 0
             \<and> om_total_fees_paid (pr_overall_metrics p) = 0
             \<and> om_average_gas_per_execution (pr_overall_metrics p) = 0
             \<and> (\<forall>(n, jm) \<in> set (pr_job_metrics p). jm_gas_efficiency jm = 0)"
    using rep gas fees eff by auto
  moreover have "\<exists>r. get_job_status s = Inr r
             \<and> (\<forall>(n, jr) \<in> set (st_jobs r).
                    mr_total_gas_used (jr_metrics jr) = 0
                    \<and> mr_total_fees_paid (jr_metrics jr) = 0)"
    using r jr by blast
  ultimately show ?thesis using inv by blast
qed

theorem gas_and_fees_stay_zero_witness:
  "reachable (apply_update (GelatoUpdate (example_summary ''vault_rebalance'' 4 (3 / 4))) polled_state)
   \<and> (''vault_rebalance'',
       new_metrics\<lparr>last_execution_time := Some 9, total_executions := 4,
                    successful_executions := 3, failed_executions := 1\<rparr>)
       \<in> set (metrics (apply_update (GelatoUpdate (example_summary ''vault_rebalance'' 4 (3 / 4)))
                         polled_state))
   \<and> total_gas_used
         (new_metrics\<lparr>last_execution_time := Some 9, total_executions := 4,
                      successful_executions := 3, failed_executions := 1\<rparr>) = 0
   \<and> total_fees_paid
         (new_metrics\<lparr>last_execution_time := Some 9, total_executions := 4,
                      successful_executions := 3, failed_executions := 1\<rparr>) = 0
   \<and> (\<exists>p. get_performance_report
             (apply_update (GelatoUpdate (example_summary ''vault_rebalance'' 4 (3 / 4)))
                polled_state) = Inr p
         \<and> om_total_gas_used (pr_overall_metrics p) = 0
         \<and> om_total_fees_paid (pr_overall_metrics p) = 0)"
proof -
  let ?s = "apply_update (GelatoUpdate (example_summary ''vault_rebalance'' 4 (3 / 4))) polled_state"
  let ?m = "new_metrics\<lparr>last_execution_time := Some 9, total_executions := 4,
                    successful_executions := 3, failed_executions := 1\<rparr>"
  have r: "reachable ?s" by (intro reachable.updated reachable_polled_state)
  have m: "(''vault_rebalance'', ?m) \<in> set (metrics ?s)"
    unfolding example_relay_poll by simp
  from gas_and_fees_stay_zero[OF r] show ?thesis using r m by blast
qed

subsection \<open>Registering an upkeep\<close>

lemma register_upkeep_insufficient_funds:
  assumes "link_balance w = Some balance" and "balance < funding_amount"
  shows "register_upkeep nm target gas check funding_amount w =
           (Inl (InsufficientLink funding_amount balance), w)"
  using assms by (simp add: register_upkeep_def)

lemma register_upkeep_funded:
  assumes "link_balance w = Some balance" and "funding_amount \<le> balance"
    and "accepts w (Approve funding_amount)"
    and "accepts w (RegisterUpkeep nm target gas check funding_amount)"
  shows "register_upkeep nm target gas check funding_amount w =
           (Inr 1,
            w\<lparr>sent := sent w @ [Approve funding_amount,
                                  RegisterUpkeep nm target gas check funding_amount]\<rparr>)"
  using assms
  by (simp add: register_upkeep_def send_transaction_def extract_upkeep_id_from_receipt_def)

text \<open>
  Claim C8. \<^verbatim>\<open>register_upkeep\<close> fails with the insufficient-balance error before any
  transaction is submitted when the LINK balance is below the funding amount (lemma
  \<open>register_upkeep_insufficient_funds\<close>), and otherwise approves and registers (lemma
  \<open>register_upkeep_funded\<close>). The identifier it returns, however, is not extracted
  from the receipt: \<^verbatim>\<open>_extract_upkeep_id_from_receipt\<close>, documented as extracting the
  upkeep id from the transaction receipt, returns the placeholder 1. On a chain whose
  registration receipt announces upkeep 42, with 6 LINK on the account, the call submits
  both transactions and returns 1; with 4 LINK it fails and submits nothing.
\<close>

theorem register_upkeep_returns_placeholder:
  "receipt_for (example_web3 (6 * 10 ^ 18))
       (RegisterUpkeep ''vault_rebalance'' ''0x...'' 500000 [] default_funding_amount) =
     \<lparr>logs = [(''UpkeepRegistered'', 42)]\<rparr>
   \<and> register_upkeep ''vault_rebalance'' ''0x...'' 500000 [] default_funding_amount
       (example_web3 (6 * 10 ^ 18)) =
     (Inr 1,
      (example_web3 (6 * 10 ^ 18))
        \<lparr>sent := [Approve default_funding_amount,
                  RegisterUpkeep ''vault_rebalance'' ''0x...'' 500000 []
                    default_funding_amount]\<rparr>)
   \<and> register_upkeep ''vault_rebalance'' ''0x...'' 500000 [] default_funding_amount
       (example_web3 (4 * 10 ^ 18)) =
     (Inl (InsufficientLink default_funding_amount (4 * 10 ^ 18)), example_web3 (4 * 10 ^ 18))"
  by (simp add: register_upkeep_def send_transaction_def extract_upkeep_id_from_receipt_def
      example_web3_def default_funding_amount_def)

subsection \<open>Cancelling a job\<close>

lemma relay_deployed_eq:
  "relay_deployed =
     (Inr (),
      \<lparr>chainlink_manager = Some \<lparr>keeper_jobs = []\<rparr>,
       gelato_manager =
         Some \<lparr>tasks =
                 [(''yield_harvest'',
                   \<lparr>t_name = ''yield_harvest'', t_target_contract = ''0x...'',
                    t_function_selector = ''rebalance()'', t_resolver_contract = ''0x...'',
                    t_resolver_data = [], t_interval = 1800, t_max_fee = 10 ^ 17,
                    t_active = True, t_task_id = Some ''task_1700000000.0'',
                    t_created_at = Some 1, t_last_execution = None\<rparr>)],
               executions = []\<rparr>,
       jobs = [(''yield_harvest'',
                (example_job ''yield_harvest'' 300000 1800 3 GELATO)\<lparr>created_at := Some 2\<rparr>)],
       job_assignments = [(''yield_harvest'', GELATO)],
       metrics = [(''yield_harvest'', new_metrics)]\<rparr>,
      (example_web3 0)\<lparr>sent := [CreateTask ''0x...'' ''rebalance()'' ''0x...'' []]\<rparr>)"
  by (simp add: relay_deployed_def add_job_def deploy_job_def deploy_gelato_job_def
      create_task_def add_task_def send_transaction_def extract_task_id_from_receipt_def
      dict_get_def new_orchestrator_def example_job_def example_clock_def example_web3_def
      Let_def)

lemma relay_cancelled_eq:
  "relay_cancelled =
     (Inr (),
      \<lparr>chainlink_manager = Some \<lparr>keeper_jobs = []\<rparr>,
       gelato_manager =
         Some \<lparr>tasks =
                 [(''yield_harvest'',
                   \<lparr>t_name = ''yield_harvest'', t_target_contract = ''0x...'',
                    t_function_selector = ''rebalance()'', t_resolver_contract = ''0x...'',
                    t_resolver_data = [], t_interval = 1800, t_max_fee = 10 ^ 17,
                    t_active = False, t_task_id = Some ''task_1700000000.0'',
                    t_created_at = Some 1, t_last_execution = None\<rparr>)],
               executions = []\<rparr>,
       jobs = [(''yield_harvest'',
                (example_job ''yield_harvest'' 300000 1800 3 GELATO)
                  \<lparr>created_at := Some 2, active := False\<rparr>)],
       job_assignments = [(''yield_harvest'', GELATO)],
       metrics = [(''yield_harvest'', new_metrics)]\<rparr>,
      (example_web3 0)\<lparr>sent := [CreateTask ''0x...'' ''rebalance()'' ''0x...'' [],
                                CancelTask ''task_1700000000.0'']\<rparr>)"
  by (simp add: relay_cancelled_def relay_deployed_eq cancel_job_def cancel_task_def
      send_transaction_def dict_get_def example_job_def example_web3_def)

text \<open>
  Claim C6, as stated, fails: \<^verbatim>\<open>cancel_job\<close> does not look at the \<^verbatim>\<open>active\<close> flag.
  After a relay job was deployed and cancelled it is inactive, and one cancel
  transaction was submitted; cancelling it again succeeds and submits a second cancel
  transaction for the same task.
\<close>

theorem cancel_inactive_job_counterexample:
  "map_of (jobs (fst (snd relay_cancelled))) ''yield_harvest'' =
     Some ((example_job ''yield_harvest'' 300000 1800 3 GELATO)
             \<lparr>created_at := Some 2, active := False\<rparr>)
   \<and> sent (snd (snd relay_cancelled)) =
       [CreateTask ''0x...'' ''rebalance()'' ''0x...'' [], CancelTask ''task_1700000000.0'']
   \<and> fst (cancel_job ''yield_harvest'' (fst (snd relay_cancelled)) (snd (snd relay_cancelled))) =
       Inr ()
   \<and> sent (snd (snd (cancel_job ''yield_harvest'' (fst (snd relay_cancelled))
                        (snd (snd relay_cancelled))))) =
       [CreateTask ''0x...'' ''rebalance()'' ''0x...'' [], CancelTask ''task_1700000000.0'',
        CancelTask ''task_1700000000.0'']"
  by (simp add: relay_cancelled_eq cancel_job_def cancel_task_def
      send_transaction_def dict_get_def example_job_def example_web3_def)


lemma keeper_cancelled_eq:
  "keeper_cancelled =
     (Inr (),
      \<lparr>chainlink_manager = Some \<lparr>keeper_jobs = []\<rparr>,
       gelato_manager = Some \<lparr>tasks = [], executions = []\<rparr>,
       jobs = [(''vault_rebalance'',
                (example_job ''vault_rebalance'' 500000 86400 2 CHAINLINK)
                  \<lparr>created_at := Some 2, active := False\<rparr>)],
       job_assignments = [(''vault_rebalance'', CHAINLINK)],
       metrics = [(''vault_rebalance'', new_metrics)]\<rparr>,
      (example_web3 (6 * 10 ^ 18))
        \<lparr>sent := [Approve default_funding_amount,
                  RegisterUpkeep ''vault_rebalance'' ''0x...'' 500000 []
                    default_funding_amount]\<rparr>)"
  by (simp add: keeper_cancelled_def keeper_deployed_def add_job_def deploy_job_def
      deploy_chainlink_job_def register_upkeep_def keeper_add_job_def remove_job_def
      cancel_job_def send_transaction_def extract_upkeep_id_from_receipt_def
      dict_get_def new_orchestrator_def example_job_def example_clock_def example_web3_def
      default_funding_amount_def AList.delete_eq Let_def)

lemma cancel_job_keeper:
  assumes "map_of (jobs s) n = Some job" and "\<not> active job"
    and "map_of (job_assignments s) n = Some CHAINLINK"
    and "chainlink_manager s = Some cm"
  shows "cancel_job n s w = (Inr (), s\<lparr>chainlink_manager := Some (remove_job n cm)\<rparr>, w)"
proof -
  have "job\<lparr>active := False\<rparr> = job" using assms(2) by simp
  then have "AList.update n (job\<lparr>active := False\<rparr>) (jobs s) = jobs s"
    using assms(1) by (simp add: update_triv)
  then show ?thesis using assms by (simp add: cancel_job_def dict_get_def)
qed

lemma cancel_job_relay:
  assumes "map_of (jobs s) n = Some job" and "\<not> active job"
    and "map_of (job_assignments s) n = Some GELATO"
    and "gelato_manager s = Some gm" and "map_of (tasks gm) n = Some t"
    and "t_task_id t = Some tid" and "tid \<noteq> []"
  shows "cancel_job n s w =
           (if accepts w (CancelTask tid)
            then (Inr (),
                  s\<lparr>gelato_manager :=
                       Some (gm\<lparr>tasks := AList.update n (t\<lparr>t_active := False\<rparr>) (tasks gm)\<rparr>)\<rparr>,
                  w\<lparr>sent := sent w @ [CancelTask tid]\<rparr>)
            else (Inl RpcError, s, w))"
proof -
  have "job\<lparr>active := False\<rparr> = job" using assms(2) by simp
  then have j: "AList.update n (job\<lparr>active := False\<rparr>) (jobs s) = jobs s"
    using assms(1) by (simp add: update_triv)
  have "s\<lparr>gelato_manager := Some gm\<rparr> = s" using assms(4) by simp
  then show ?thesis using assms j
    by (simp add: cancel_job_def cancel_task_def dict_get_def send_transaction_def)
qed

text \<open>
  Claim C6, amended. For every job already marked inactive, \<^verbatim>\<open>cancel_job\<close> calls the
  cancel operation of the assigned manager again. For a keeper job (keeper manager
  initialised) that operation is \<^verbatim>\<open>remove_job\<close>, and \<^verbatim>\<open>cancel_job\<close> returns success;
  once the job is gone from the keeper manager nothing is left to remove, and the call
  changes neither the orchestrator nor the chain. For a relay job whose task is still
  held by the relay manager with a task id, \<^verbatim>\<open>cancel_job\<close> submits another cancel
  transaction and, when the node accepts it, returns success with the jobs and metrics
  unchanged.
\<close>

theorem cancel_inactive_job_calls_adapter_again:
  assumes "map_of (jobs s) n = Some job" and "\<not> active job"
    and "map_of (job_assignments s) n = Some p"
  shows "(p = CHAINLINK \<and> chainlink_manager s = Some cm \<longrightarrow>
            cancel_job n s w = (Inr (), s\<lparr>chainlink_manager := Some (remove_job n cm)\<rparr>, w))
       \<and> (p = CHAINLINK \<and> chainlink_manager s = Some cm \<and> map_of (keeper_jobs cm) n = None \<longrightarrow>
            cancel_job n s w = (Inr (), s, w))
       \<and> (p = GELATO \<and> gelato_manager s = Some gm \<and> map_of (tasks gm) n = Some t
            \<and> t_task_id t = Some tid \<and> tid \<noteq> [] \<and> accepts w (CancelTask tid) \<longrightarrow>
            fst (cancel_job n s w) = Inr ()
            \<and> sent (snd (snd (cancel_job n s w))) = sent w @ [CancelTask tid]
            \<and> jobs (fst (snd (cancel_job n s w))) = jobs s
            \<and> metrics (fst (snd (cancel_job n s w))) = metrics s)"
proof (intro conjI impI)
  assume h: "p = CHAINLINK \<and> chainlink_manager s = Some cm"
  then show "cancel_job n s w = (Inr (), s\<lparr>chainlink_manager := Some (remove_job n cm)\<rparr>, w)"
    using cancel_job_keeper[OF assms(1,2), of cm w] assms(3) by simp
next
  assume h: "p = CHAINLINK \<and> chainlink_manager s = Some cm \<and> map_of (keeper_jobs cm) n = None"
  then have "remove_job n cm = cm" by (simp add: remove_job_def)
  moreover have "s\<lparr>chainlink_manager := Some cm\<rparr> = s" using h by simp
  ultimately show "cancel_job n s w = (Inr (), s, w)"
    using cancel_job_keeper[OF assms(1,2), of cm w] assms(3) h by simp
next
  assume h: "p = GELATO \<and> gelato_manager s = Some gm \<and> map_of (tasks gm) n = Some t
            \<and> t_task_id t = Some tid \<and> tid \<noteq> [] \<and> accepts w (CancelTask tid)"
  then have c: "cancel_job n s w =
           (Inr (),
            s\<lparr>gelato_manager :=
                 Some (gm\<lparr>tasks := AList.update n (t\<lparr>t_active := False\<rparr>) (tasks gm)\<rparr>)\<rparr>,
            w\<lparr>sent := sent w @ [CancelTask tid]\<rparr>)"
    using cancel_job_relay[OF assms(1,2), of gm t tid w] assms(3) by simp
  show "fst (cancel_job n s w) = Inr ()" by (simp add: c)
  show "sent (snd (snd (cancel_job n s w))) = sent w @ [CancelTask tid]" by (simp add: c)
  show "jobs (fst (snd (cancel_job n s w))) = jobs s" by (simp add: c)
  show "metrics (fst (snd (cancel_job n s w))) = metrics s" by (simp add: c)
qed

theorem cancel_inactive_job_calls_adapter_again_witness:
  "cancel_job ''vault_rebalance'' (fst (snd keeper_cancelled)) (snd (snd keeper_cancelled)) =
     (Inr (), fst (snd keeper_cancelled), snd (snd keeper_cancelled))
   \<and> fst (cancel_job ''yield_harvest'' (fst (snd relay_cancelled)) (snd (snd relay_cancelled))) =
       Inr ()
   \<and> sent (snd (snd (cancel_job ''yield_harvest'' (fst (snd relay_cancelled))
                        (snd (snd relay_cancelled))))) =
       sent (snd (snd relay_cancelled)) @ [CancelTask ''task_1700000000.0'']"
proof -
  let ?ks = "fst (snd keeper_cancelled)" and ?kw = "snd (snd keeper_cancelled)"
  let ?rs = "fst (snd relay_cancelled)" and ?rw = "snd (snd relay_cancelled)"
  let ?kj = "(example_job ''vault_rebalance'' 500000 86400 2 CHAINLINK)
                  \<lparr>created_at := Some 2, active := False\<rparr>"
  let ?rj = "(example_job ''yield_harvest'' 300000 1800 3 GELATO)
                  \<lparr>created_at := Some 2, active := False\<rparr>"
  let ?t = "\<lparr>t_name = ''yield_harvest'', t_target_contract = ''0x...'',
                    t_function_selector = ''rebalance()'', t_resolver_contract = ''0x...'',
                    t_resolver_data = [], t_interval = 1800, t_max_fee = 10 ^ 17,
                    t_active = False, t_task_id = Some ''task_1700000000.0'',
                    t_created_at = Some 1, t_last_execution = None\<rparr>"
  let ?gm = "\<lparr>tasks = [(''yield_harvest'', ?t)], executions = []\<rparr>"
  have k: "map_of (jobs ?ks) ''vault_rebalance'' = Some ?kj" "\<not> active ?kj"
    "map_of (job_assignments ?ks) ''vault_rebalance'' = Some CHAINLINK"
    "chainlink_manager ?ks = Some \<lparr>keeper_jobs = []\<rparr>"
    "map_of (keeper_jobs \<lparr>keeper_jobs = []\<rparr>) ''vault_rebalance'' = None"
    by (simp_all add: keeper_cancelled_eq)
  have r: "map_of (jobs ?rs) ''yield_harvest'' = Some ?rj" "\<not> active ?rj"
    "map_of (job_assignments ?rs) ''yield_harvest'' = Some GELATO"
    "gelato_manager ?rs = Some ?gm" "map_of (tasks ?gm) ''yield_harvest'' = Some ?t"
    "t_task_id ?t = Some ''task_1700000000.0''" "''task_1700000000.0'' \<noteq> []"
    "accepts ?rw (CancelTask ''task_1700000000.0'')"
    by (simp_all add: relay_cancelled_eq example_web3_def)
  from cancel_inactive_job_calls_adapter_again
         [OF k(1,2,3), where cm = "\<lparr>keeper_jobs = []\<rparr>" and w = ?kw]
  have a: "cancel_job ''vault_rebalance'' ?ks ?kw = (Inr (), ?ks, ?kw)"
    using k(4,5) by blast
  from cancel_inactive_job_calls_adapter_again
         [OF r(1,2,3), where gm = ?gm and t = ?t and tid = "''task_1700000000.0''" and w = ?rw]
  have b: "fst (cancel_job ''yield_harvest'' ?rs ?rw) = Inr ()
     \<and> sent (snd (snd (cancel_job ''yield_harvest'' ?rs ?rw))) =
         sent ?rw @ [CancelTask ''task_1700000000.0'']"
    using r(4,5,6,7,8) by blast
  show ?thesis using a b by blast
qed

subsection \<open>Processing a relay task status\<close>

text \<open>
  Claim C5, as stated, fails for a history that is non-decreasing but not strictly
  increasing. With last-seen time 3 and a history of two executions that both carry the
  timestamp 5, a successful and a failed one, both entries are strictly newer than the
  last-seen time, but only the first is recorded: after it the last-seen time is 5, and
  the second is no longer newer.
\<close>

theorem process_task_status_equal_timestamps_counterexample:
  "sorted [5, 5 :: int]
   \<and> map ex_timestamp [example_entry 5 True, example_entry 5 False] = [Iso 5, Iso 5]
   \<and> newer_than_last_seen (t_last_execution (example_task (Some 3))) 5
   \<and> process_task_status (example_task (Some 3))
         \<lparr>ts_executions = Some [example_entry 5 True, example_entry 5 False]\<rparr>
         \<lparr>tasks = [(''yield_harvest'', example_task (Some 3))], executions = []\<rparr> =
       (Inr (), example_task (Some 5),
        \<lparr>tasks = [(''yield_harvest'', example_task (Some 3))],
         executions =
           [\<lparr>task_id = Some ''task_1700000000.0'', execution_time = 5, gas_used = 21000,
             fee_paid = 1, success = True, error_message = None\<rparr>]\<rparr>)"
  by (simp add: process_task_status_def newer_than_last_seen_def task_execution_of_def
      example_task_def example_entry_def)

lemma task_execution_of_last [simp]:
  "task_execution_of (task\<lparr>t_last_execution := x\<rparr>) t e = task_execution_of task t e"
  by (simp add: task_execution_of_def)

lemma execution_time_task_execution_of [simp]:
  "execution_time (task_execution_of task t e) = t"
  by (simp add: task_execution_of_def)

lemma process_executions_sorted:
  assumes "map ex_timestamp h = map Iso ts" and "sorted ts"
  shows "\<exists>new. process_executions h task execs =
            (Inr (),
             task\<lparr>t_last_execution :=
                    (if new = [] then t_last_execution task
                     else Some (execution_time (last new)))\<rparr>,
             execs @ new)
         \<and> sorted_wrt (<) (map execution_time new)
         \<and> set (map execution_time new) =
             {t \<in> set ts. newer_than_last_seen (t_last_execution task) t}
         \<and> (\<forall>x \<in> set new. \<exists>e \<in> set h.
                ex_timestamp e = Iso (execution_time x)
                \<and> x = task_execution_of task (execution_time x) e)"
  using assms
proof (induction h arbitrary: ts task execs)
  case Nil
  then have "ts = []" by simp
  then show ?case by (intro exI[of _ "[]"]) simp
next
  case (Cons e rest)
  from Cons.prems(1) obtain t ts' where ts: "ts = t # ts'" "ex_timestamp e = Iso t"
    "map ex_timestamp rest = map Iso ts'" by (cases ts) auto
  from Cons.prems(2) ts(1) have le: "\<forall>u \<in> set ts'. t \<le> u" and s': "sorted ts'" by simp_all
  show ?case
  proof (cases "newer_than_last_seen (t_last_execution task) t")
    case True
    let ?task1 = "task\<lparr>t_last_execution := Some t\<rparr>"
    let ?r = "task_execution_of task t e"
    from Cons.IH[OF ts(3) s', of ?task1 "execs @ [?r]"] obtain new' where
      run: "process_executions rest ?task1 (execs @ [?r]) =
            (Inr (),
             ?task1\<lparr>t_last_execution :=
                    (if new' = [] then t_last_execution ?task1
                     else Some (execution_time (last new')))\<rparr>,
             (execs @ [?r]) @ new')"
      and srt: "sorted_wrt (<) (map execution_time new')"
      and st: "set (map execution_time new') =
             {u \<in> set ts'. newer_than_last_seen (t_last_execution ?task1) u}"
      and src: "\<forall>x \<in> set new'. \<exists>e \<in> set rest.
                ex_timestamp e = Iso (execution_time x)
                \<and> x = task_execution_of ?task1 (execution_time x) e"
      by blast
    have st': "set (map execution_time new') = {u \<in> set ts'. t < u}"
      using st by (simp add: newer_than_last_seen_def)
    have up: "\<forall>u \<in> set ts'. newer_than_last_seen (t_last_execution task) u"
      using True le by (auto simp add: newer_than_last_seen_def split: option.splits)
    have 1: "process_executions (e # rest) task execs =
            (Inr (),
             task\<lparr>t_last_execution :=
                    (if ?r # new' = [] then t_last_execution task
                     else Some (execution_time (last (?r # new'))))\<rparr>,
             execs @ (?r # new'))"
      using True ts(2) run by simp
    have 2: "sorted_wrt (<) (map execution_time (?r # new'))"
      using srt st' by auto
    have 3: "set (map execution_time (?r # new')) =
             {u \<in> set ts. newer_than_last_seen (t_last_execution task) u}"
      using st' up True le ts(1) by auto
    have 4: "\<forall>x \<in> set (?r # new'). \<exists>e' \<in> set (e # rest).
                ex_timestamp e' = Iso (execution_time x)
                \<and> x = task_execution_of task (execution_time x) e'"
      using src ts(2) by auto
    show ?thesis using 1 2 3 4 by (intro exI[of _ "?r # new'"]) blast
  next
    case False
    from Cons.IH[OF ts(3) s', of task execs] obtain new' where
      run: "process_executions rest task execs =
            (Inr (),
             task\<lparr>t_last_execution :=
                    (if new' = [] then t_last_execution task
                     else Some (execution_time (last new')))\<rparr>,
             execs @ new')"
      and srt: "sorted_wrt (<) (map execution_time new')"
      and st: "set (map execution_time new') =
             {u \<in> set ts'. newer_than_last_seen (t_last_execution task) u}"
      and src: "\<forall>x \<in> set new'. \<exists>e \<in> set rest.
                ex_timestamp e = Iso (execution_time x)
                \<and> x = task_execution_of task (execution_time x) e"
      by blast
    have 1: "process_executions (e # rest) task execs =
            (Inr (),
             task\<lparr>t_last_execution :=
                    (if new' = [] then t_last_execution task
                     else Some (execution_time (last new')))\<rparr>,
             execs @ new')"
      using False ts(2) run by simp
    have 3: "set (map execution_time new') =
             {u \<in> set ts. newer_than_last_seen (t_last_execution task) u}"
      using st False ts(1) by auto
    have 4: "\<forall>x \<in> set new'. \<exists>e' \<in> set (e # rest).
                ex_timestamp e' = Iso (execution_time x)
                \<and> x = task_execution_of task (execution_time x) e'"
      using src by auto
    show ?thesis using 1 srt 3 4 by (intro exI[of _ new']) blast
  qed
qed


lemma process_executions_strict:
  assumes "map ex_timestamp h = map Iso ts" and "sorted_wrt (<) ts"
  shows "snd (snd (process_executions h task execs)) =
           execs @ map (\<lambda>(t, e). task_execution_of task t e)
                     (filter (\<lambda>(t, e). newer_than_last_seen (t_last_execution task) t)
                        (zip ts h))"
  using assms
proof (induction h arbitrary: ts task execs)
  case Nil
  then show ?case by simp
next
  case (Cons e rest)
  from Cons.prems(1) obtain t ts' where ts: "ts = t # ts'" "ex_timestamp e = Iso t"
    "map ex_timestamp rest = map Iso ts'" by (cases ts) auto
  from Cons.prems(2) ts(1) have lt: "\<forall>u \<in> set ts'. t < u" and s': "sorted_wrt (<) ts'"
    by simp_all
  show ?case
  proof (cases "newer_than_last_seen (t_last_execution task) t")
    case True
    let ?task1 = "task\<lparr>t_last_execution := Some t\<rparr>"
    have all1: "\<forall>x \<in> set (zip ts' rest).
                 (\<lambda>(u, e). newer_than_last_seen (t_last_execution ?task1) u) x"
      using lt by (auto simp add: newer_than_last_seen_def dest: set_zip_leftD)
    have all0: "\<forall>x \<in> set (zip ts' rest).
                 (\<lambda>(u, e). newer_than_last_seen (t_last_execution task) u) x"
      using lt True
      by (auto simp add: newer_than_last_seen_def split: option.splits dest!: set_zip_leftD)
    have f1: "filter (\<lambda>(u, e). newer_than_last_seen (t_last_execution ?task1) u) (zip ts' rest)
                = zip ts' rest"
      using all1 by (intro filter_True) simp
    have f0: "filter (\<lambda>(u, e). newer_than_last_seen (t_last_execution task) u) (zip ts' rest)
                = zip ts' rest"
      using all0 by (intro filter_True) simp
    from Cons.IH[OF ts(3) s', of ?task1 "execs @ [task_execution_of task t e]"]
    have "snd (snd (process_executions rest ?task1 (execs @ [task_execution_of task t e]))) =
            (execs @ [task_execution_of task t e])
              @ map (\<lambda>(u, e). task_execution_of task u e) (zip ts' rest)"
      by (simp only: f1 task_execution_of_last)
    then show ?thesis using True ts(1,2) by (simp add: f0)
  next
    case False
    from Cons.IH[OF ts(3) s', of task execs] show ?thesis
      using False ts(1,2) by simp
  qed
qed

text \<open>
  Claim C5, amended. For every relay task and every status whose history has valid
  timestamps in non-decreasing order, \<^verbatim>\<open>_process_task_status\<close> succeeds, leaves the
  earlier records in place and appends records with strictly increasing execution times,
  exactly one for each distinct timestamp of the history that is strictly newer than the
  task's last-seen time at the start of the poll, each built from a history entry with
  that timestamp; no entry at or before the last-seen time is recorded, and the last-seen
  time becomes the time of the last record appended (it is unchanged when none is). When
  the history is strictly increasing, the appended records are exactly the entries
  strictly newer than the last-seen time, one per entry, in order.
\<close>

theorem process_task_status_records_each_new_timestamp_once:
  assumes "ts_executions status = Some h" and "map ex_timestamp h = map Iso ts"
    and "sorted ts"
  shows "\<exists>new. process_task_status task status gm =
            (Inr (),
             task\<lparr>t_last_execution :=
                    (if new = [] then t_last_execution task
                     else Some (execution_time (last new)))\<rparr>,
             gm\<lparr>executions := executions gm @ new\<rparr>)
         \<and> sorted_wrt (<) (map execution_time new)
         \<and> set (map execution_time new) =
             {t \<in> set ts. newer_than_last_seen (t_last_execution task) t}
         \<and> (\<forall>x \<in> set new. \<exists>e \<in> set h.
                ex_timestamp e = Iso (execution_time x)
                \<and> x = task_execution_of task (execution_time x) e)
         \<and> (sorted_wrt (<) ts \<longrightarrow>
                new = map (\<lambda>(t, e). task_execution_of task t e)
                        (filter (\<lambda>(t, e). newer_than_last_seen (t_last_execution task) t)
                           (zip ts h)))"
proof -
  from process_executions_sorted[OF assms(2,3), of task "executions gm"] obtain new where
    run: "process_executions h task (executions gm) =
            (Inr (),
             task\<lparr>t_last_execution :=
                    (if new = [] then t_last_execution task
                     else Some (execution_time (last new)))\<rparr>,
             executions gm @ new)"
    and rest: "sorted_wrt (<) (map execution_time new)"
      "set (map execution_time new) =
             {t \<in> set ts. newer_than_last_seen (t_last_execution task) t}"
      "\<forall>x \<in> set new. \<exists>e \<in> set h.
                ex_timestamp e = Iso (execution_time x)
                \<and> x = task_execution_of task (execution_time x) e"
    by blast
  have 1: "process_task_status task status gm =
            (Inr (),
             task\<lparr>t_last_execution :=
                    (if new = [] then t_last_execution task
                     else Some (execution_time (last new)))\<rparr>,
             gm\<lparr>executions := executions gm @ new\<rparr>)"
    using assms(1) run by (simp add: process_task_status_def)
  have 2: "new = map (\<lambda>(t, e). task_execution_of task t e)
                        (filter (\<lambda>(t, e). newer_than_last_seen (t_last_execution task) t)
                           (zip ts h))"
    if "sorted_wrt (<) ts"
    using process_executions_strict[OF assms(2) that, of task "executions gm"] run by simp
  show ?thesis using 1 rest 2 by (intro exI[of _ new]) blast
qed

theorem process_task_status_records_each_new_timestamp_once_witness:
  "(\<exists>new. process_task_status (example_task (Some 3))
            \<lparr>ts_executions =
               Some [example_entry 2 True, example_entry 5 True, example_entry 5 False,
                     example_entry 8 True]\<rparr>
            \<lparr>tasks = [(''yield_harvest'', example_task (Some 3))], executions = []\<rparr> =
          (Inr (),
           (example_task (Some 3))
             \<lparr>t_last_execution :=
                (if new = [] then Some 3 else Some (execution_time (last new)))\<rparr>,
           \<lparr>tasks = [(''yield_harvest'', example_task (Some 3))], executions = new\<rparr>)
        \<and> sorted_wrt (<) (map execution_time new)
        \<and> set (map execution_time new) = {5, 8})
   \<and> (\<exists>new. process_task_status (example_task (Some 3))
            \<lparr>ts_executions =
               Some [example_entry 2 True, example_entry 5 False, example_entry 8 True]\<rparr>
            \<lparr>tasks = [(''yield_harvest'', example_task (Some 3))], executions = []\<rparr> =
          (Inr (),
           (example_task (Some 3))
             \<lparr>t_last_execution :=
                (if new = [] then Some 3 else Some (execution_time (last new)))\<rparr>,
           \<lparr>tasks = [(''yield_harvest'', example_task (Some 3))], executions = new\<rparr>)
        \<and> new = [task_execution_of (example_task (Some 3)) 5 (example_entry 5 False),
                  task_execution_of (example_task (Some 3)) 8 (example_entry 8 True)])"
proof -
  let ?task = "example_task (Some 3)"
  let ?gm = "\<lparr>tasks = [(''yield_harvest'', example_task (Some 3))], executions = []\<rparr>"
  let ?h1 = "[example_entry 2 True, example_entry 5 True, example_entry 5 False,
              example_entry 8 True]"
  let ?h2 = "[example_entry 2 True, example_entry 5 False, example_entry 8 True]"
  have l: "t_last_execution ?task = Some 3" by (simp add: example_task_def)
  have a1: "ts_executions \<lparr>ts_executions = Some ?h1\<rparr> = Some ?h1"
    and a2: "map ex_timestamp ?h1 = map Iso [2, 5, 5, 8]"
    and a3: "sorted [2, 5, 5, 8 :: int]"
    by (simp_all add: example_entry_def)
  have b1: "ts_executions \<lparr>ts_executions = Some ?h2\<rparr> = Some ?h2"
    and b2: "map ex_timestamp ?h2 = map Iso [2, 5, 8]"
    and b3: "sorted [2, 5, 8 :: int]" and b4: "sorted_wrt (<) [2, 5, 8 :: int]"
    by (simp_all add: example_entry_def)
  have s1: "{t \<in> set [2, 5, 5, 8 :: int]. newer_than_last_seen (Some 3) t} = {5, 8}"
    by (auto simp add: newer_than_last_seen_def)
  have s2: "map (\<lambda>(t, e). task_execution_of ?task t e)
              (filter (\<lambda>(t, e). newer_than_last_seen (Some 3) t) (zip [2, 5, 8] ?h2)) =
            [task_execution_of ?task 5 (example_entry 5 False),
             task_execution_of ?task 8 (example_entry 8 True)]"
    by (simp add: newer_than_last_seen_def)
  from process_task_status_records_each_new_timestamp_once [OF a1 a2 a3, of ?task ?gm]
  have A: "\<exists>new. process_task_status ?task \<lparr>ts_executions = Some ?h1\<rparr> ?gm =
          (Inr (),
           ?task\<lparr>t_last_execution :=
                (if new = [] then Some 3 else Some (execution_time (last new)))\<rparr>,
           \<lparr>tasks = [(''yield_harvest'', example_task (Some 3))], executions = new\<rparr>)
        \<and> sorted_wrt (<) (map execution_time new)
        \<and> set (map execution_time new) = {5, 8}"
    unfolding l s1 by auto
  from process_task_status_records_each_new_timestamp_once [OF b1 b2 b3, of ?task ?gm]
  have B: "\<exists>new. process_task_status ?task \<lparr>ts_executions = Some ?h2\<rparr> ?gm =
          (Inr (),
           ?task\<lparr>t_last_execution :=
                (if new = [] then Some 3 else Some (execution_time (last new)))\<rparr>,
           \<lparr>tasks = [(''yield_harvest'', example_task (Some 3))], executions = new\<rparr>)
        \<and> new = [task_execution_of ?task 5 (example_entry 5 False),
                  task_execution_of ?task 8 (example_entry 8 True)]"
    unfolding l s2 using b4 by auto
  show ?thesis using A B by blast
qed

end
